theory Spec2Isabelle
  imports Complex_Main
begin

section \<open>Common data\<close>

text \<open>
  A JavaScript string is modelled by the list of its code units, written as a HOL
  \<open>string\<close>; \<open>length\<close> is the source's \<open>.length\<close>. Numbers that the source uses as
  offsets and counts are integers (\<open>int\<close>), so that a negative argument is an input
  of the model as it is of the code.

  \<open>DocumentChunk\<close> (lib/document-processor.ts) has a content and an open metadata
  object; the metadata is an association list in the order the source writes the keys.
\<close>

datatype meta_value = MStr string | MNum int

record DocumentChunk =
  content :: string
  metadata :: "(string \<times> meta_value) list"

text \<open>Decimal rendering of a non-negative integer, as a template literal prints it.\<close>

fun number_to_string :: "nat \<Rightarrow> string" where
  "number_to_string n =
     (if n < 10 then [char_of (48 + n)]
      else number_to_string (n div 10) @ [char_of (48 + n mod 10)])"

declare number_to_string.simps [simp del]

section \<open>Chunking engine: \<open>chunkText\<close>\<close>

text \<open>
  \<open>String.prototype.slice(start, end)\<close> on integer arguments: a negative index counts
  from the end, both indices are clamped to the string, and an empty string results
  when the clamped end is not after the clamped start.
\<close>

definition js_slice :: "'a list \<Rightarrow> int \<Rightarrow> int \<Rightarrow> 'a list" where
  "js_slice s start end =
     (let len = int (length s);
          from = (if start < 0 then max (len + start) 0 else min start len);
          to = (if end < 0 then max (len + end) 0 else min end len)
      in take (nat (to - from)) (drop (nat from) s))"

text \<open>
  The \<open>while\<close> loop of \<open>chunkText\<close>, with the variables \<open>start\<close> and \<open>chunks\<close> as
  arguments. The loop need not terminate (for \<open>overlap = maxLength\<close> the start
  never advances), so it is a partial function: \<open>None\<close> is "does not return".
\<close>

partial_function (option) chunkText_loop ::
  "'a list \<Rightarrow> int \<Rightarrow> int \<Rightarrow> int \<Rightarrow> 'a list list \<Rightarrow> 'a list list option" where
  "chunkText_loop text maxLength overlap start chunks =
     (if start < int (length text) then
        (let end = min (start + maxLength) (int (length text));
             chunks' = chunks @ [js_slice text start end]
         in if end = int (length text) then Some chunks'
            else chunkText_loop text maxLength overlap (end - overlap) chunks')
      else Some chunks)"

declare chunkText_loop.simps [code]

definition text_chunk :: "nat \<times> string \<Rightarrow> DocumentChunk" where
  "text_chunk = (\<lambda>(index, c).
     \<lparr>content = c,
      metadata = [(''type'', MStr ''text''),
                  (''section'', MStr (''Chunk '' @ number_to_string (index + 1)))]\<rparr>)"

definition chunkText :: "string \<Rightarrow> int \<Rightarrow> int \<Rightarrow> DocumentChunk list option" where
  "chunkText text maxLength overlap =
     map_option (\<lambda>chunks. map text_chunk (enumerate 0 chunks))
       (chunkText_loop text maxLength overlap 0 [])"

text \<open>
  The segmentation in the words of the design: starting at an offset, take a window of
  \<open>m\<close> characters; if the window reaches the end of the text, stop after emitting it;
  otherwise advance the start by \<open>step\<close> and repeat.
\<close>

function sliding_windows :: "'a list \<Rightarrow> nat \<Rightarrow> nat \<Rightarrow> nat \<Rightarrow> 'a list list" where
  "sliding_windows text m step s =
     (if s < length text \<and> 0 < step then
        take m (drop s text) #
          (if length text \<le> s + m then [] else sliding_windows text m step (s + step))
      else [])"
  by pat_completeness auto
termination
  by (relation "measure (\<lambda>(text, m, step, s). length text - s)") auto

declare sliding_windows.simps [simp del]

subsection \<open>The loop computes the sliding windows\<close>

lemma js_slice_window:
  assumes "0 \<le> start" "start < int (length t)" "0 \<le> m"
  shows "js_slice t start (min (start + m) (int (length t))) = take (nat m) (drop (nat start) t)"
proof (cases "start + m \<le> int (length t)")
  case True
  then have "nat (start + m - start) = nat m" by simp
  with True assms show ?thesis
    by (simp add: js_slice_def Let_def min_def)
next
  case False
  then have "length (drop (nat start) t) \<le> nat m"
    using assms by simp
  moreover have "nat (int (length t) - start) = length (drop (nat start) t)"
    using assms by simp
  ultimately show ?thesis
    using False assms by (simp add: js_slice_def Let_def min_def)
qed

lemma chunkText_loop_refines:
  assumes "0 \<le> overlap" "overlap < maxLength"
  shows "chunkText_loop t maxLength overlap (int s) chunks =
         Some (chunks @ sliding_windows t (nat maxLength) (nat (maxLength - overlap)) s)"
proof (induction t "nat maxLength" "nat (maxLength - overlap)" s arbitrary: chunks
    rule: sliding_windows.induct)
  case (1 t s)
  let ?w = "take (nat maxLength) (drop s t)"
  let ?step = "nat (maxLength - overlap)"
  show ?case
  proof (cases "s < length t")
    case False
    then show ?thesis
      by (subst chunkText_loop.simps, subst sliding_windows.simps) simp
  next
    case True
    have sl: "js_slice t (int s) (min (int s + maxLength) (int (length t))) = ?w"
      using js_slice_window[of "int s" t maxLength] True assms by simp
    show ?thesis
    proof (cases "length t \<le> s + nat maxLength")
      case T2: True
      then have "min (int s + maxLength) (int (length t)) = int (length t)"
        using assms by linarith
      then show ?thesis
        using True T2 assms sl
        by (subst chunkText_loop.simps, subst sliding_windows.simps) (simp add: Let_def)
    next
      case F2: False
      then have e: "min (int s + maxLength) (int (length t)) = int s + maxLength"
        and ne: "int s + maxLength \<noteq> int (length t)"
        using assms by linarith+
      have st: "int s + maxLength - overlap = int (s + ?step)"
        using assms by linarith
      have IH: "chunkText_loop t maxLength overlap (int (s + ?step)) (chunks @ [?w]) =
         Some ((chunks @ [?w]) @ sliding_windows t (nat maxLength) ?step (s + ?step))"
        using "1.hyps"[of "chunks @ [?w]"] True F2 assms by simp
      have IH': "chunkText_loop t maxLength overlap (int s + maxLength - overlap) (chunks @ [?w]) =
         Some ((chunks @ [?w]) @ sliding_windows t (nat maxLength) ?step (s + ?step))"
        using IH by (simp only: st)
      show ?thesis
        apply (subst chunkText_loop.simps, subst sliding_windows.simps)
        using True F2 assms sl e ne IH' by (simp add: Let_def)
    qed
  qed
qed

lemma sliding_windows_nth:
  "k < length (sliding_windows t m step s) \<Longrightarrow>
   sliding_windows t m step s ! k = take m (drop (s + k * step) t)"
proof (induction t m step s arbitrary: k rule: sliding_windows.induct)
  case (1 t m step s)
  show ?case
  proof (cases k)
    case 0
    with "1.prems" show ?thesis
      by (subst sliding_windows.simps, subst (asm) sliding_windows.simps) (simp split: if_splits)
  next
    case (Suc j)
    with "1.prems" have c: "s < length t" "0 < step" "\<not> length t \<le> s + m"
      and j: "j < length (sliding_windows t m step (s + step))"
      by (subst (asm) sliding_windows.simps, simp split: if_splits)+
    from "1.IH"[OF _ c(3) j] c
    have "sliding_windows t m step (s + step) ! j = take m (drop (s + step + j * step) t)"
      by simp
    then show ?thesis
      using c Suc by (subst sliding_windows.simps) (simp add: ac_simps)
  qed
qed

lemma sliding_windows_full:
  "Suc k < length (sliding_windows t m step s) \<Longrightarrow> s + k * step + m < length t"
proof (induction t m step s arbitrary: k rule: sliding_windows.induct)
  case (1 t m step s)
  from "1.prems" have c: "s < length t" "0 < step" "\<not> length t \<le> s + m"
    and j: "k < length (sliding_windows t m step (s + step))"
    by (subst (asm) sliding_windows.simps, simp split: if_splits)+
  show ?case
  proof (cases k)
    case 0
    with c show ?thesis by simp
  next
    case (Suc j)
    with "1.IH"[OF _ c(3), of j] c j show ?thesis by (simp add: ac_simps)
  qed
qed

lemma sliding_windows_last:
  "sliding_windows t m step s \<noteq> [] \<Longrightarrow> step \<le> m \<Longrightarrow>
   length t \<le> s + (length (sliding_windows t m step s) - 1) * step + m"
proof (induction t m step s rule: sliding_windows.induct)
  case (1 t m step s)
  from "1.prems" have c: "s < length t" "0 < step"
    by (subst (asm) sliding_windows.simps, simp split: if_splits)+
  show ?case
  proof (cases "length t \<le> s + m")
    case True
    then show ?thesis using c by (subst sliding_windows.simps) simp
  next
    case False
    show ?thesis
    proof (cases "sliding_windows t m step (s + step) = []")
      case True
      then have "length t \<le> s + step"
        using c by (subst (asm) sliding_windows.simps) (simp split: if_splits)
      then show ?thesis using c False "1.prems"(2) by simp
    next
      case F: False
      then obtain n where n: "length (sliding_windows t m step (s + step)) = Suc n"
        by (cases "sliding_windows t m step (s + step)") auto
      from "1.IH"[OF _ False F "1.prems"(2)] c False n show ?thesis
        by (subst sliding_windows.simps) (simp add: ac_simps)
    qed
  qed
qed

lemma sliding_windows_start:
  "k < length (sliding_windows t m step s) \<Longrightarrow> s + k * step < length t"
proof (induction t m step s arbitrary: k rule: sliding_windows.induct)
  case (1 t m step s)
  from "1.prems" have c: "s < length t" "0 < step"
    by (subst (asm) sliding_windows.simps, simp split: if_splits)+
  show ?case
  proof (cases k)
    case 0
    with c show ?thesis by simp
  next
    case (Suc j)
    with "1.prems" c have c3: "\<not> length t \<le> s + m"
      and j: "j < length (sliding_windows t m step (s + step))"
      by (subst (asm) sliding_windows.simps, simp split: if_splits)+
    from "1.IH"[OF _ c3 j] c Suc show ?thesis by (simp add: ac_simps)
  qed
qed

lemma sliding_windows_nonempty:
  "s < length t \<Longrightarrow> 0 < step \<Longrightarrow> sliding_windows t m step s \<noteq> []"
  by (subst sliding_windows.simps) simp

lemma sliding_windows_empty:
  "length t \<le> s \<Longrightarrow> sliding_windows t m step s = []"
  by (subst sliding_windows.simps) simp

lemma sliding_windows_cover:
  "s \<le> p \<Longrightarrow> p < length t \<Longrightarrow> 0 < step \<Longrightarrow> step \<le> m \<Longrightarrow>
   \<exists>k < length (sliding_windows t m step s). s + k * step \<le> p \<and> p < s + k * step + m"
proof (induction t m step s rule: sliding_windows.induct)
  case (1 t m step s)
  show ?case
  proof (cases "p < s + m")
    case True
    have "0 < length (sliding_windows t m step s)"
      using sliding_windows_nonempty[of s t step m] "1.prems" by simp
    with True "1.prems" show ?thesis by (intro exI[of _ 0]) simp
  next
    case False
    with "1.prems" have c: "s < length t \<and> 0 < step" "\<not> length t \<le> s + m" "s + step \<le> p"
      by simp_all
    from "1.IH"[OF c(1) c(2) c(3) "1.prems"(2,3,4)]
    obtain k where k: "k < length (sliding_windows t m step (s + step))"
      "s + step + k * step \<le> p" "p < s + step + k * step + m" by blast
    have "Suc k < length (sliding_windows t m step s)"
      using k(1) c by (subst sliding_windows.simps) simp
    with k show ?thesis by (intro exI[of _ "Suc k"]) (simp add: ac_simps)
  qed
qed

lemma chunkText_windows:
  assumes "0 \<le> overlap" "overlap < maxLength"
  shows "chunkText t maxLength overlap =
         Some (map text_chunk (enumerate 0
           (sliding_windows t (nat maxLength) (nat (maxLength - overlap)) 0)))"
  using chunkText_loop_refines[OF assms, of t 0 "[]"] by (simp add: chunkText_def)

lemma content_text_chunk_nth:
  "k < length ws \<Longrightarrow> content (map text_chunk (enumerate 0 ws) ! k) = ws ! k"
  by (simp add: text_chunk_def nth_enumerate_eq)

lemma metadata_text_chunk_nth:
  "k < length ws \<Longrightarrow> metadata (map text_chunk (enumerate 0 ws) ! k) =
     [(''type'', MStr ''text''), (''section'', MStr (''Chunk '' @ number_to_string (k + 1)))]"
  by (simp add: text_chunk_def nth_enumerate_eq)

lemma chunkText_2500:
  assumes "length t = 2500"
  shows "chunkText t 1000 200 =
     Some [text_chunk (0, take 1000 t), text_chunk (1, take 1000 (drop 800 t)),
           text_chunk (2, drop 1600 t)]"
proof -
  have "sliding_windows t 1000 800 0 = [take 1000 t, take 1000 (drop 800 t), drop 1600 t]"
    using assms
    by (subst sliding_windows.simps, simp, subst sliding_windows.simps, simp,
        subst sliding_windows.simps, simp)
  then show ?thesis
    using chunkText_windows[of 200 1000 t] by (simp add: enumerate_eq_zip upt_rec numeral_2_eq_2)
qed

subsection \<open>C3: sliding-window segmentation\<close>

text \<open>
  C3. For \<open>0 \<le> overlap < maxLength\<close> (the precondition the design states),
  \<open>chunkText\<close> returns, and window \<open>k\<close> starts at offset
  \<open>k * (maxLength - overlap)\<close>: chunk \<open>k\<close> holds the \<open>maxLength\<close> characters from
  there, or fewer when the text ends first. Every chunk but the last has exactly
  \<open>maxLength\<close> characters, the last one ends at the end of the text, and chunk \<open>k\<close> is
  labelled \<open>Chunk k+1\<close> with type \<open>text\<close>. On a text of 2500 characters with
  \<open>maxLength = 1000\<close> and \<open>overlap = 200\<close> the result has exactly three chunks, the windows
  at offsets 0, 800 and 1600, of lengths 1000, 1000 and 900 (the third window runs from
  1600 to 2500; 700 is the number of characters it adds, not its length).
\<close>

theorem chunkText_sliding_window:
  "(0 \<le> overlap \<and> overlap < maxLength \<longrightarrow>
     (\<exists>chunks. chunkText t maxLength overlap = Some chunks \<and>
        (chunks = [] \<longleftrightarrow> t = []) \<and>
        (\<forall>k < length chunks.
           k * nat (maxLength - overlap) < length t \<and>
           content (chunks ! k) = take (nat maxLength) (drop (k * nat (maxLength - overlap)) t) \<and>
           metadata (chunks ! k) =
             [(''type'', MStr ''text''), (''section'', MStr (''Chunk '' @ number_to_string (k + 1)))] \<and>
           (Suc k < length chunks \<longrightarrow> length (content (chunks ! k)) = nat maxLength) \<and>
           (Suc k = length chunks \<longrightarrow>
              k * nat (maxLength - overlap) + length (content (chunks ! k)) = length t)))) \<and>
   (length t = 2500 \<longrightarrow>
     (\<exists>c1 c2 c3. chunkText t 1000 200 = Some [c1, c2, c3] \<and>
        content c1 = take 1000 t \<and> content c2 = take 1000 (drop 800 t) \<and>
        content c3 = drop 1600 t \<and>
        map (length \<circ> content) [c1, c2, c3] = [1000, 1000, 900]))"
proof (intro conjI impI)
  assume a: "0 \<le> overlap \<and> overlap < maxLength"
  define m where "m = nat maxLength"
  define step where "step = nat (maxLength - overlap)"
  define ws where "ws = sliding_windows t m step 0"
  define chunks where "chunks = map text_chunk (enumerate 0 ws)"
  have step: "0 < step" "step \<le> m" using a unfolding step_def m_def by linarith+
  have len: "length chunks = length ws" by (simp add: chunks_def)
  have res: "chunkText t maxLength overlap = Some chunks"
    using chunkText_windows[of overlap maxLength t] a
    by (simp add: chunks_def ws_def m_def step_def)
  have emp: "chunks = [] \<longleftrightarrow> t = []"
  proof
    assume "chunks = []"
    then have "ws = []" using len by simp
    then show "t = []"
      using sliding_windows_nonempty[of 0 t step m] step by (auto simp: ws_def)
  next
    assume "t = []"
    then have "ws = []" using sliding_windows_empty[of t 0 m step] by (simp add: ws_def)
    then show "chunks = []" by (simp add: chunks_def)
  qed
  have each: "k * step < length t \<and>
           content (chunks ! k) = take m (drop (k * step) t) \<and>
           metadata (chunks ! k) =
             [(''type'', MStr ''text''), (''section'', MStr (''Chunk '' @ number_to_string (k + 1)))] \<and>
           (Suc k < length chunks \<longrightarrow> length (content (chunks ! k)) = m) \<and>
           (Suc k = length chunks \<longrightarrow> k * step + length (content (chunks ! k)) = length t)"
    if k: "k < length chunks" for k
  proof -
    have kw: "k < length ws" using k len by simp
    have c: "content (chunks ! k) = take m (drop (k * step) t)"
      using content_text_chunk_nth[OF kw] sliding_windows_nth[of k t m step 0] kw
      by (simp add: chunks_def ws_def)
    have st: "k * step < length t"
      using sliding_windows_start[of k t m step 0] kw by (simp add: ws_def)
    have full: "length (content (chunks ! k)) = m" if "Suc k < length chunks"
      using sliding_windows_full[of k t m step 0] that len c by (simp add: ws_def)
    have last: "k * step + length (content (chunks ! k)) = length t" if "Suc k = length chunks"
    proof -
      have "ws \<noteq> []" using kw by auto
      then have "length t \<le> (length ws - 1) * step + m"
        using sliding_windows_last[of t m step 0] step by (simp add: ws_def)
      moreover have "length ws - 1 = k" using that len by simp
      ultimately show ?thesis using c st by simp
    qed
    show ?thesis
      using c st full last metadata_text_chunk_nth[OF kw] by (simp add: chunks_def)
  qed
  show "\<exists>chunks. chunkText t maxLength overlap = Some chunks \<and>
        (chunks = [] \<longleftrightarrow> t = []) \<and>
        (\<forall>k < length chunks.
           k * nat (maxLength - overlap) < length t \<and>
           content (chunks ! k) = take (nat maxLength) (drop (k * nat (maxLength - overlap)) t) \<and>
           metadata (chunks ! k) =
             [(''type'', MStr ''text''), (''section'', MStr (''Chunk '' @ number_to_string (k + 1)))] \<and>
           (Suc k < length chunks \<longrightarrow> length (content (chunks ! k)) = nat maxLength) \<and>
           (Suc k = length chunks \<longrightarrow>
              k * nat (maxLength - overlap) + length (content (chunks ! k)) = length t))"
    using res emp each unfolding m_def step_def by blast
next
  assume L: "length t = 2500"
  show "\<exists>c1 c2 c3. chunkText t 1000 200 = Some [c1, c2, c3] \<and>
        content c1 = take 1000 t \<and> content c2 = take 1000 (drop 800 t) \<and>
        content c3 = drop 1600 t \<and>
        map (length \<circ> content) [c1, c2, c3] = [1000, 1000, 900]"
    apply (intro exI conjI)
        apply (rule chunkText_2500[OF L])
    by (simp_all add: text_chunk_def L)
qed


text \<open>The theorem at \<open>''abcdefghij''\<close>, \<open>4\<close>, \<open>1\<close> and at 2500 letters \<open>A\<close>.\<close>

theorem chunkText_sliding_window_witness:
  "(0::int) \<le> 1 \<and> (1::int) < 4 \<and> length (replicate 2500 (CHR ''A'')) = 2500 \<and>
   map_option (map content) (chunkText ''abcdefghij'' 4 1) = Some [''abcd'', ''defg'', ''ghij''] \<and>
   map_option (map (length \<circ> content)) (chunkText (replicate 2500 (CHR ''A'')) 1000 200)
     = Some [1000, 1000, 900]"
proof -
  have h: "(0::int) \<le> 1 \<and> (1::int) < 4" by simp
  have l: "length (replicate 2500 (CHR ''A'')) = 2500" by simp
  from conjunct1[OF chunkText_sliding_window, THEN mp, OF h, of "''abcdefghij''"]
  obtain chunks where c: "chunkText ''abcdefghij'' 4 1 = Some chunks"
    and k: "\<forall>k < length chunks. content (chunks ! k) = take (nat 4) (drop (k * nat (4 - 1)) ''abcdefghij'')"
    by blast
  have "map_option length (chunkText ''abcdefghij'' 4 1) = Some 3" by code_simp
  then have "length chunks = 3" using c by simp
  then have "map content chunks = [''abcd'', ''defg'', ''ghij'']"
    using k by (simp add: list_eq_iff_nth_eq nth_Cons' less_Suc_eq numeral_3_eq_3)
  then have c2: "map_option (map content) (chunkText ''abcdefghij'' 4 1) = Some [''abcd'', ''defg'', ''ghij'']"
    using c by simp
  from conjunct2[OF chunkText_sliding_window, THEN mp, OF l]
  obtain c1 c2 c3 where "chunkText (replicate 2500 (CHR ''A'')) 1000 200 = Some [c1, c2, c3]"
    "map (length \<circ> content) [c1, c2, c3] = [1000, 1000, 900]"
    by (elim exE conjE)
  then have "map_option (map (length \<circ> content)) (chunkText (replicate 2500 (CHR ''A'')) 1000 200)
     = Some [1000, 1000, 900]" by simp
  with h l c2 show ?thesis by blast
qed

text \<open>
  On 2500 characters the code does not return chunks of lengths \<open>1000, 1000, 700\<close>.
\<close>

theorem chunkText_2500_counterexample:
  "map_option (map (length \<circ> content)) (chunkText (replicate 2500 (CHR ''A'')) 1000 200)
     = Some [1000, 1000, 900] \<and>
   map_option (map (length \<circ> content)) (chunkText (replicate 2500 (CHR ''A'')) 1000 200)
     \<noteq> Some [1000, 1000, 700]"
  using chunkText_2500[of "replicate 2500 (CHR ''A'')"] by (simp add: text_chunk_def)


subsection \<open>C9: termination and coverage\<close>

text \<open>
  Without progress the loop does not return: with \<open>overlap = maxLength\<close> and a text longer
  than one window the start stays at 0.
\<close>

lemma chunkText_no_progress:
  assumes "0 < maxLength" and "maxLength < int (length t)"
  shows "chunkText t maxLength maxLength = None"
proof -
  have "\<forall>chunks. chunkText_loop t maxLength maxLength 0 chunks = None"
  proof (induction rule: chunkText_loop.fixp_induct)
    case 1
    then show ?case
      by (auto simp: ccpo.admissible_def fun_lub_def flat_lub_def)
  next
    case 2
    then show ?case by simp
  next
    case (3 f)
    have "t \<noteq> []" using assms by auto
    with 3 show ?case using assms by (simp add: Let_def)
  qed
  then show ?thesis by (simp add: chunkText_def)
qed

text \<open>
  C9. For every text and \<open>0 \<le> overlap < maxLength\<close>, \<open>chunkText\<close> terminates (it returns a
  list of chunks, non-empty for a non-empty text), and the windows cover the text with
  no gap: every position \<open>p\<close> of the text lies in some emitted window \<open>k\<close>, which starts
  at \<open>k * (maxLength - overlap)\<close>, and the chunk has the text's character there.
\<close>

theorem chunkText_terminates_and_covers:
  assumes "0 \<le> overlap" and "overlap < maxLength"
  shows "\<exists>chunks. chunkText t maxLength overlap = Some chunks \<and>
           (t \<noteq> [] \<longrightarrow> chunks \<noteq> []) \<and>
           (\<forall>p < length t. \<exists>k < length chunks.
              k * nat (maxLength - overlap) \<le> p \<and>
              p - k * nat (maxLength - overlap) < length (content (chunks ! k)) \<and>
              content (chunks ! k) = take (nat maxLength) (drop (k * nat (maxLength - overlap)) t) \<and>
              content (chunks ! k) ! (p - k * nat (maxLength - overlap)) = t ! p)"
proof -
  define m where "m = nat maxLength"
  define step where "step = nat (maxLength - overlap)"
  define ws where "ws = sliding_windows t m step 0"
  define chunks where "chunks = map text_chunk (enumerate 0 ws)"
  have step: "0 < step" "step \<le> m" using assms unfolding step_def m_def by linarith+
  have len: "length chunks = length ws" by (simp add: chunks_def)
  have res: "chunkText t maxLength overlap = Some chunks"
    using chunkText_windows[OF assms, of t] by (simp add: chunks_def ws_def m_def step_def)
  have ne: "chunks \<noteq> []" if "t \<noteq> []"
    using sliding_windows_nonempty[of 0 t step m] step that len by (auto simp: ws_def)
  have cover: "\<exists>k < length chunks. k * step \<le> p \<and> p - k * step < length (content (chunks ! k)) \<and>
      content (chunks ! k) = take m (drop (k * step) t) \<and>
      content (chunks ! k) ! (p - k * step) = t ! p" if p: "p < length t" for p
  proof -
    from sliding_windows_cover[of 0 p t step m] p step
    obtain k where k: "k < length ws" "k * step \<le> p" "p < k * step + m"
      by (auto simp: ws_def)
    have c: "content (chunks ! k) = take m (drop (k * step) t)"
      using content_text_chunk_nth[OF k(1)] sliding_windows_nth[of k t m step 0] k(1)
      by (simp add: chunks_def ws_def)
    have inw: "p - k * step < length (content (chunks ! k))"
      using c k p by (simp add: less_diff_conv2)
    have "content (chunks ! k) ! (p - k * step) = t ! p"
      using c k p by simp
    with k c inw len show ?thesis by auto
  qed
  show ?thesis
    using res ne cover unfolding m_def step_def by blast
qed

text \<open>The theorem at \<open>''abcdefghij''\<close>, \<open>4\<close>, \<open>1\<close>: three chunks, and position 7 is covered.\<close>

theorem chunkText_terminates_and_covers_witness:
  "(0::int) \<le> 1 \<and> (1::int) < 4 \<and>
   (\<exists>chunks. chunkText ''abcdefghij'' 4 1 = Some chunks \<and> length chunks = 3 \<and>
      (\<exists>k < length chunks. k * 3 \<le> 7 \<and> 7 - k * 3 < length (content (chunks ! k)) \<and>
         content (chunks ! k) ! (7 - k * 3) = CHR ''h''))"
proof -
  have h: "(0::int) \<le> 1" "(1::int) < 4" by simp_all
  from chunkText_terminates_and_covers[OF h, of "''abcdefghij''"]
  obtain chunks where c: "chunkText ''abcdefghij'' 4 1 = Some chunks"
    and cov: "\<forall>p < length ''abcdefghij''. \<exists>k < length chunks.
              k * nat (4 - 1) \<le> p \<and>
              p - k * nat (4 - 1) < length (content (chunks ! k)) \<and>
              content (chunks ! k) ! (p - k * nat (4 - 1)) = ''abcdefghij'' ! p"
    by blast
  have "map_option length (chunkText ''abcdefghij'' 4 1) = Some 3" by code_simp
  then have l: "length chunks = 3" using c by simp
  have "(7::nat) < length ''abcdefghij''" by simp
  with cov have "\<exists>k < length chunks. k * nat (4 - 1) \<le> 7 \<and>
              7 - k * nat (4 - 1) < length (content (chunks ! k)) \<and>
              content (chunks ! k) ! (7 - k * nat (4 - 1)) = ''abcdefghij'' ! 7"
    by blast
  moreover have "''abcdefghij'' ! 7 = CHR ''h''" by code_simp
  moreover have "nat (4 - 1) = 3" by simp
  ultimately have "\<exists>k < length chunks. k * 3 \<le> 7 \<and> 7 - k * 3 < length (content (chunks ! k)) \<and>
         content (chunks ! k) ! (7 - k * 3) = CHR ''h''"
    by simp
  with h c l show ?thesis by blast
qed


section \<open>Errors and the bounded retry: \<open>retryWithBackoff\<close>\<close>

text \<open>
  A thrown value is an error object. The two copies of \<open>retryWithBackoff\<close> read its status at
  different places: \<open>error.status\<close> (the Gemini client) and \<open>error.httpResponse?.status\<close> (the
  Hugging Face client); a missing field is \<open>None\<close>.
\<close>

record js_error =
  error_message :: string
  status :: "int option"
  httpResponse_status :: "int option"

text \<open>
  What \<open>retryWithBackoff\<close> does to the outside: it invokes the wrapped call and it waits.
  \<open>Call i\<close> is the invocation in iteration \<open>i\<close>, \<open>Sleep d\<close> a wait of \<open>d\<close> milliseconds.
  The wrapped call may answer differently each time, so it is a function of the iteration;
  \<open>random i\<close> is the value of \<open>Math.random()\<close> drawn in iteration \<open>i\<close>.
\<close>

datatype event = is_Call: Call nat | Sleep real

definition retryable :: "int option \<Rightarrow> bool" where
  "retryable st \<longleftrightarrow> st = Some 503 \<or> st = Some 429 \<or> st = Some 500"

function retryWithBackoff_from ::
  "(js_error \<Rightarrow> int option) \<Rightarrow> (nat \<Rightarrow> js_error + 'a) \<Rightarrow> (nat \<Rightarrow> real) \<Rightarrow> int \<Rightarrow> real \<Rightarrow>
   nat \<Rightarrow> event list \<Rightarrow> (js_error + 'a) \<times> event list" where
  "retryWithBackoff_from status_of fn random maxRetries baseDelay i trace =
     (if int i < maxRetries then
        (case fn i of
           Inr v \<Rightarrow> (Inr v, trace @ [Call i])
         | Inl error \<Rightarrow>
             if int i = maxRetries - 1 then (Inl error, trace @ [Call i])
             else if retryable (status_of error) then
               (let delay = baseDelay * 2 ^ i + random i * 1000
                in retryWithBackoff_from status_of fn random maxRetries baseDelay (i + 1)
                     (trace @ [Call i, Sleep delay]))
             else (Inl error, trace @ [Call i]))
      else (Inl \<lparr>error_message = ''Max retries exceeded'', status = None, httpResponse_status = None\<rparr>, trace))"
  by pat_completeness auto
termination
  by (relation "measure (\<lambda>(status_of, fn, random, maxRetries, baseDelay, i, trace). nat (maxRetries - int i))") auto

declare retryWithBackoff_from.simps [simp del]

definition retryWithBackoff ::
  "(js_error \<Rightarrow> int option) \<Rightarrow> (nat \<Rightarrow> js_error + 'a) \<Rightarrow> (nat \<Rightarrow> real) \<Rightarrow> int \<Rightarrow> real \<Rightarrow>
   (js_error + 'a) \<times> event list" where
  "retryWithBackoff status_of fn random maxRetries baseDelay =
     retryWithBackoff_from status_of fn random maxRetries baseDelay 0 []"

abbreviation retryWithBackoff_gemini ::
  "(nat \<Rightarrow> js_error + 'a) \<Rightarrow> (nat \<Rightarrow> real) \<Rightarrow> int \<Rightarrow> real \<Rightarrow> (js_error + 'a) \<times> event list" where
  "retryWithBackoff_gemini \<equiv> retryWithBackoff status"

abbreviation retryWithBackoff_embeddings ::
  "(nat \<Rightarrow> js_error + 'a) \<Rightarrow> (nat \<Rightarrow> real) \<Rightarrow> int \<Rightarrow> real \<Rightarrow> (js_error + 'a) \<times> event list" where
  "retryWithBackoff_embeddings \<equiv> retryWithBackoff httpResponse_status"

text \<open>
  The events of the iterations \<open>i, ..., k - 1\<close> when each of them fails and is retried, and
  the outcomes after which the loop does not retry: a value, or an error whose status is
  not one of 503, 429, 500.
\<close>

definition backoff_steps :: "(nat \<Rightarrow> real) \<Rightarrow> real \<Rightarrow> nat \<Rightarrow> nat \<Rightarrow> event list" where
  "backoff_steps random baseDelay i k =
     concat (map (\<lambda>j. [Call j, Sleep (baseDelay * 2 ^ j + random j * 1000)]) [i..<k])"

definition gives_up :: "(js_error \<Rightarrow> int option) \<Rightarrow> js_error + 'a \<Rightarrow> bool" where
  "gives_up status_of outcome = (case outcome of Inr v \<Rightarrow> True | Inl error \<Rightarrow> \<not> retryable (status_of error))"

lemma retryWithBackoff_from_step:
  "retryWithBackoff_from status_of fn random maxRetries baseDelay i trace =
     (if int i < maxRetries then
        (if int i = maxRetries - 1 \<or> gives_up status_of (fn i) then (fn i, trace @ [Call i])
         else retryWithBackoff_from status_of fn random maxRetries baseDelay (i + 1)
                (trace @ [Call i, Sleep (baseDelay * 2 ^ i + random i * 1000)]))
      else (Inl \<lparr>error_message = ''Max retries exceeded'', status = None, httpResponse_status = None\<rparr>,
            trace))"
  by (subst retryWithBackoff_from.simps) (auto simp: gives_up_def Let_def split: sum.splits)

lemma backoff_steps_rec:
  "i < k \<Longrightarrow> backoff_steps random baseDelay i k =
     [Call i, Sleep (baseDelay * 2 ^ i + random i * 1000)] @ backoff_steps random baseDelay (Suc i) k"
  by (simp add: backoff_steps_def upt_rec)

lemma retryWithBackoff_from_trace:
  assumes "int i < maxRetries"
  shows "\<exists>k. i \<le> k \<and> int k < maxRetries \<and>
           (\<forall>j. i \<le> j \<and> j < k \<longrightarrow> \<not> gives_up status_of (fn j)) \<and>
           (int k = maxRetries - 1 \<or> gives_up status_of (fn k)) \<and>
           retryWithBackoff_from status_of fn random maxRetries baseDelay i trace =
             (fn k, trace @ backoff_steps random baseDelay i k @ [Call k])"
  using assms
proof (induction status_of fn random maxRetries baseDelay i trace rule: retryWithBackoff_from.induct)
  case (1 status_of fn random maxRetries baseDelay i trace)
  let ?stop = "int i = maxRetries - 1 \<or> gives_up status_of (fn i)"
  show ?case
  proof (cases ?stop)
    case True
    then have "retryWithBackoff_from status_of fn random maxRetries baseDelay i trace = (fn i, trace @ [Call i])"
      using "1.prems"
      by (subst retryWithBackoff_from.simps) (auto simp: gives_up_def split: sum.splits)
    with True "1.prems" show ?thesis
      by (intro exI[of _ i]) (auto simp: backoff_steps_def)
  next
    case False
    then obtain e where e: "fn i = Inl e" "retryable (status_of e)" "int i \<noteq> maxRetries - 1"
      by (auto simp: gives_up_def split: sum.splits)
    have lt: "int (i + 1) < maxRetries" using "1.prems" e(3) by simp
    from "1.IH"[OF "1.prems" e(1) e(3) e(2) refl lt]
    obtain k where k: "i + 1 \<le> k" "int k < maxRetries"
      "\<forall>j. i + 1 \<le> j \<and> j < k \<longrightarrow> \<not> gives_up status_of (fn j)"
      "int k = maxRetries - 1 \<or> gives_up status_of (fn k)"
      "retryWithBackoff_from status_of fn random maxRetries baseDelay (i + 1)
          (trace @ [Call i, Sleep (baseDelay * 2 ^ i + random i * 1000)]) =
        (fn k, (trace @ [Call i, Sleep (baseDelay * 2 ^ i + random i * 1000)]) @
               backoff_steps random baseDelay (i + 1) k @ [Call k])"
      by blast
    have r: "retryWithBackoff_from status_of fn random maxRetries baseDelay i trace =
        (fn k, trace @ backoff_steps random baseDelay i k @ [Call k])"
      using "1.prems" e k(1) k(5)
      by (subst retryWithBackoff_from.simps) (simp add: Let_def backoff_steps_rec[of i k])
    have "\<forall>j. i \<le> j \<and> j < k \<longrightarrow> \<not> gives_up status_of (fn j)"
    proof (intro allI impI)
      fix j assume j: "i \<le> j \<and> j < k"
      show "\<not> gives_up status_of (fn j)"
      proof (cases "j = i")
        case True
        with False show ?thesis by simp
      next
        case False
        with j k(3) show ?thesis by simp
      qed
    qed
    with k r show ?thesis
      by (intro exI[of _ k]) simp
  qed
qed

subsection \<open>C6: the retry policy\<close>

text \<open>
  C6. With the defaults (3 attempts, base delay 1000 ms) \<open>retryWithBackoff\<close> invokes the
  wrapped call at most 3 times. It retries only after an error whose status is 503, 429
  or 500, after waiting \<open>1000 * 2^i\<close> ms plus the jitter \<open>Math.random() * 1000\<close>; a value or an
  error with any other status ends the loop at once with that outcome, and the outcome
  of the third attempt is the result whatever it is, so a retryable error there is
  propagated. The statement holds for both copies (any status accessor).
\<close>

theorem retryWithBackoff_policy:
  "retryWithBackoff status_of fn random 3 1000 =
     (if gives_up status_of (fn 0) then (fn 0, [Call 0])
      else if gives_up status_of (fn 1) then
        (fn 1, [Call 0, Sleep (1000 * 2 ^ 0 + random 0 * 1000), Call 1])
      else
        (fn 2, [Call 0, Sleep (1000 * 2 ^ 0 + random 0 * 1000),
                Call 1, Sleep (1000 * 2 ^ 1 + random 1 * 1000), Call 2])) \<and>
   length (filter is_Call (snd (retryWithBackoff status_of fn random 3 1000))) \<le> 3 \<and>
   (gives_up status_of outcome \<longleftrightarrow>
      (\<forall>e. outcome = Inl e \<longrightarrow> status_of e \<notin> {Some 503, Some 429, Some 500}))"
proof -
  have eq: "retryWithBackoff status_of fn random 3 1000 =
     (if gives_up status_of (fn 0) then (fn 0, [Call 0])
      else if gives_up status_of (fn 1) then
        (fn 1, [Call 0, Sleep (1000 * 2 ^ 0 + random 0 * 1000), Call 1])
      else
        (fn 2, [Call 0, Sleep (1000 * 2 ^ 0 + random 0 * 1000),
                Call 1, Sleep (1000 * 2 ^ 1 + random 1 * 1000), Call 2]))"
  proof (cases "gives_up status_of (fn 0)")
    case True
    then show ?thesis
      unfolding retryWithBackoff_def by (subst retryWithBackoff_from_step) simp
  next
    case g0: False
    show ?thesis
    proof (cases "gives_up status_of (fn 1)")
      case True
      with g0 show ?thesis
        unfolding retryWithBackoff_def
        by (subst retryWithBackoff_from_step, simp, subst retryWithBackoff_from_step) simp
    next
      case False
      with g0 show ?thesis
        unfolding retryWithBackoff_def
        by (subst retryWithBackoff_from_step, simp, subst retryWithBackoff_from_step, simp,
            subst retryWithBackoff_from_step) (simp add: numeral_2_eq_2)
    qed
  qed
  have cnt: "length (filter is_Call (snd (retryWithBackoff status_of fn random 3 1000))) \<le> 3"
    unfolding eq by simp
  have gu: "gives_up status_of outcome \<longleftrightarrow>
      (\<forall>e. outcome = Inl e \<longrightarrow> status_of e \<notin> {Some 503, Some 429, Some 500})"
    by (cases outcome) (auto simp: gives_up_def retryable_def)
  from eq cnt gu show ?thesis by blast
qed

text \<open>
  Two failures with status 503 and then a value: three calls, waits of 1500 and 2500 ms
  for a jitter draw of one half. A first failure with status 401: one call, no wait.
\<close>

definition example_fn :: "nat \<Rightarrow> js_error + string" where
  "example_fn i =
     (if i < 2 then Inl \<lparr>error_message = ''busy'', status = Some 503, httpResponse_status = None\<rparr>
      else Inr ''ok'')"

definition example_denied :: "nat \<Rightarrow> js_error + string" where
  "example_denied i = Inl \<lparr>error_message = ''denied'', status = Some 401, httpResponse_status = None\<rparr>"

theorem retryWithBackoff_policy_witness:
  "retryWithBackoff_gemini example_fn (\<lambda>i. 1 / 2) 3 1000 =
     (Inr ''ok'', [Call 0, Sleep 1500, Call 1, Sleep 2500, Call 2]) \<and>
   retryWithBackoff_gemini example_denied (\<lambda>i. 1 / 2) 3 1000 =
     (Inl \<lparr>error_message = ''denied'', status = Some 401, httpResponse_status = None\<rparr>, [Call 0])"
  using retryWithBackoff_policy[of status example_fn "\<lambda>i. 1 / 2" "Inr ''ok''"]
    retryWithBackoff_policy[of status example_denied "\<lambda>i. 1 / 2" "Inr ''ok''"]
  by (simp add: gives_up_def retryable_def example_fn_def example_denied_def)

section \<open>Chat route: merging the retrieval results\<close>

text \<open>
  A retrieved row: a chunk with its identity, the document it belongs to and a
  similarity score.
\<close>

record ScoredChunk = DocumentChunk +
  similarity :: real

record SearchRow = ScoredChunk +
  id :: string
  document_id :: string

text \<open>
  \<open>Array.prototype.findIndex\<close> (the first index whose element satisfies the predicate, or
  \<open>-1\<close>) and \<open>Array.prototype.filter\<close> with the three-argument callback.
\<close>

fun findIndex_from :: "('a \<Rightarrow> bool) \<Rightarrow> 'a list \<Rightarrow> int \<Rightarrow> int" where
  "findIndex_from P [] i = -1"
| "findIndex_from P (x # xs) i = (if P x then i else findIndex_from P xs (i + 1))"

definition findIndex :: "('a \<Rightarrow> bool) \<Rightarrow> 'a list \<Rightarrow> int" where
  "findIndex P xs = findIndex_from P xs 0"

definition filter_indexed :: "('a \<Rightarrow> nat \<Rightarrow> 'a list \<Rightarrow> bool) \<Rightarrow> 'a list \<Rightarrow> 'a list" where
  "filter_indexed f self = map snd (filter (\<lambda>(index, x). f x index self) (enumerate 0 self))"

text \<open>
  The chat route (app/api/chat/route.ts, lines 45 to 66). \<open>search query\<close> is
  \<open>searchSimilarDocuments(query, user.id, 5)\<close>. The loop pushes each result onto
  \<open>relevantDocuments\<close>; when a search throws, the \<open>catch\<close> keeps what was pushed so far and
  the filter is skipped.
\<close>

definition remove_duplicates :: "SearchRow list \<Rightarrow> SearchRow list" where
  "remove_duplicates relevantDocuments =
     filter_indexed (\<lambda>doc index self.
        int index = findIndex (\<lambda>d. document_id d = document_id doc \<and> content d = content doc) self)
       relevantDocuments"

fun search_each :: "(string \<Rightarrow> js_error + SearchRow list) \<Rightarrow> string list \<Rightarrow> SearchRow list
    \<Rightarrow> js_error \<times> SearchRow list + SearchRow list" where
  "search_each search [] relevantDocuments = Inr relevantDocuments"
| "search_each search (query # queries) relevantDocuments =
     (case search query of
        Inl e \<Rightarrow> Inl (e, relevantDocuments)
      | Inr docs \<Rightarrow> search_each search queries (relevantDocuments @ docs))"

definition gather_documents :: "(string \<Rightarrow> js_error + SearchRow list) \<Rightarrow> string list \<Rightarrow> SearchRow list" where
  "gather_documents search decomposedQueries =
     (case search_each search decomposedQueries [] of
        Inr relevantDocuments \<Rightarrow> remove_duplicates relevantDocuments
      | Inl (embedError, relevantDocuments) \<Rightarrow> relevantDocuments)"

lemma findIndex_from_range:
  "findIndex_from P xs i = -1 \<or> (i \<le> findIndex_from P xs i \<and> findIndex_from P xs i < i + int (length xs))"
  by (induction xs arbitrary: i) (auto, force+)

lemma findIndex_from_iff:
  "0 \<le> i \<Longrightarrow> k < length xs \<Longrightarrow>
   (findIndex_from P xs i = i + int k) \<longleftrightarrow> (P (xs ! k) \<and> (\<forall>j < k. \<not> P (xs ! j)))"
proof (induction xs arbitrary: i k)
  case Nil
  then show ?case by simp
next
  case (Cons x xs)
  show ?case
  proof (cases k)
    case 0
    then show ?thesis
      using findIndex_from_range[of P xs "i + 1"] Cons.prems by auto
  next
    case (Suc k')
    then have k': "k' < length xs" using Cons.prems by simp
    have "(findIndex_from P xs (i + 1) = (i + 1) + int k') \<longleftrightarrow> (P (xs ! k') \<and> (\<forall>j < k'. \<not> P (xs ! j)))"
      using Cons.IH[of "i + 1" k'] Cons.prems k' by simp
    then show ?thesis
      using Suc by (auto simp: nth_Cons' less_Suc_eq_0_disj algebra_simps)
  qed
qed

lemma findIndex_iff:
  "k < length xs \<Longrightarrow> (int k = findIndex P xs) \<longleftrightarrow> (P (xs ! k) \<and> (\<forall>j < k. \<not> P (xs ! j)))"
  using findIndex_from_iff[of 0 k xs P] by (auto simp: findIndex_def)

text \<open>Two rows are the same chunk when document id and content agree.\<close>

definition same_chunk :: "SearchRow \<Rightarrow> SearchRow \<Rightarrow> bool" where
  "same_chunk doc d \<longleftrightarrow> document_id d = document_id doc \<and> content d = content doc"

lemma enumerate_nth_map: "enumerate 0 xs = map (\<lambda>i. (i, xs ! i)) [0..<length xs]"
  by (rule nth_equalityI) (simp_all add: nth_enumerate_eq)

lemma filter_indexed_nth:
  "filter_indexed f xs = map (nth xs) (filter (\<lambda>i. f (xs ! i) i xs) [0..<length xs])"
  by (simp add: filter_indexed_def enumerate_nth_map filter_map o_def)

lemma remove_duplicates_nth:
  "remove_duplicates xs =
     map (nth xs) (filter (\<lambda>i. \<forall>j < i. \<not> same_chunk (xs ! i) (xs ! j)) [0..<length xs])"
proof -
  have "filter (\<lambda>i. int i = findIndex (\<lambda>d. document_id d = document_id (xs ! i) \<and> content d = content (xs ! i)) xs)
          [0..<length xs]
      = filter (\<lambda>i. \<forall>j < i. \<not> same_chunk (xs ! i) (xs ! j)) [0..<length xs]"
    by (rule filter_cong) (auto simp: findIndex_iff same_chunk_def)
  then show ?thesis
    by (simp add: remove_duplicates_def filter_indexed_nth)
qed

lemma same_chunk_refl [simp]: "same_chunk d d"
  by (simp add: same_chunk_def)

lemma same_chunk_sym: "same_chunk a b \<Longrightarrow> same_chunk b a"
  by (auto simp: same_chunk_def)

lemma same_chunk_trans: "same_chunk a b \<Longrightarrow> same_chunk b c \<Longrightarrow> same_chunk a c"
  by (auto simp: same_chunk_def)

lemma remove_duplicates_snoc:
  "remove_duplicates (xs @ [x]) =
     remove_duplicates xs @ (if \<exists>y \<in> set xs. same_chunk x y then [] else [x])"
proof -
  have 1: "filter (\<lambda>i. \<forall>j < i. \<not> same_chunk ((xs @ [x]) ! i) ((xs @ [x]) ! j)) [0..<length xs]
         = filter (\<lambda>i. \<forall>j < i. \<not> same_chunk (xs ! i) (xs ! j)) [0..<length xs]"
    by (rule filter_cong) (auto simp: nth_append)
  have 2: "map (nth (xs @ [x])) (filter (\<lambda>i. \<forall>j < i. \<not> same_chunk (xs ! i) (xs ! j)) [0..<length xs])
         = map (nth xs) (filter (\<lambda>i. \<forall>j < i. \<not> same_chunk (xs ! i) (xs ! j)) [0..<length xs])"
    by (rule map_cong) (auto simp: nth_append)
  have 3: "(\<forall>j < length xs. \<not> same_chunk x ((xs @ [x]) ! j)) \<longleftrightarrow> \<not> (\<exists>y \<in> set xs. same_chunk x y)"
    by (auto simp: nth_append set_conv_nth)
  show ?thesis
    unfolding remove_duplicates_nth using 1 2 3 by (simp add: nth_append)
qed

lemma remove_duplicates_Nil [simp]: "remove_duplicates [] = []"
  by (simp add: remove_duplicates_nth)

lemma remove_duplicates_count:
  "length (filter (same_chunk d) (remove_duplicates xs)) = (if \<exists>y \<in> set xs. same_chunk d y then 1 else 0)"
proof (induction xs rule: rev_induct)
  case Nil
  then show ?case by simp
next
  case (snoc x xs)
  show ?case
  proof (cases "\<exists>y \<in> set xs. same_chunk d y")
    case True
    then obtain y where y: "y \<in> set xs" "same_chunk d y" by blast
    have "same_chunk d x \<Longrightarrow> \<exists>y \<in> set xs. same_chunk x y"
      using y same_chunk_sym same_chunk_trans by blast
    with True snoc show ?thesis
      by (auto simp: remove_duplicates_snoc)
  next
    case False
    have "same_chunk d x \<Longrightarrow> \<not> (\<exists>y \<in> set xs. same_chunk x y)"
      using False same_chunk_trans by blast
    with False snoc show ?thesis
      by (auto simp: remove_duplicates_snoc)
  qed
qed

lemma remove_duplicates_subset: "set (remove_duplicates xs) \<subseteq> set xs"
  by (induction xs rule: rev_induct) (auto simp: remove_duplicates_snoc)

lemma search_each_all:
  "\<forall>q \<in> set queries. \<exists>ds. search q = Inr ds \<Longrightarrow>
   search_each search queries acc = Inr (acc @ concat (map (\<lambda>q. projr (search q)) queries))"
  by (induction queries arbitrary: acc) (auto split: sum.splits)


subsection \<open>C7: deduplication by document id and content\<close>

text \<open>
  C7. When every sub-query's search returns, the merged list is the concatenation of the
  results with duplicates removed by the pair (document id, content): a chunk that the
  results of two sub-queries share (same document id and content) occurs in the merged
  list exactly once, and the merged list holds retrieved rows only.
\<close>

theorem chat_deduplicates_by_document_and_content:
  assumes "\<forall>q \<in> set queries. \<exists>ds. search q = Inr ds"
    and "q1 \<in> set queries" and "search q1 = Inr ds1" and "d1 \<in> set ds1"
    and "q2 \<in> set queries" and "search q2 = Inr ds2" and "d2 \<in> set ds2"
    and "document_id d1 = document_id d2" and "content d1 = content d2"
  shows "length (filter (\<lambda>d. document_id d = document_id d1 \<and> content d = content d1)
           (gather_documents search queries)) = 1
       \<and> set (gather_documents search queries) \<subseteq> (\<Union>q \<in> set queries. set (projr (search q)))"
proof -
  let ?all = "concat (map (\<lambda>q. projr (search q)) queries)"
  have g: "gather_documents search queries = remove_duplicates ?all"
    using search_each_all[OF assms(1), of "[]"] by (simp add: gather_documents_def)
  have "d1 \<in> set ?all"
    using assms(2,3,4) by force
  then have "\<exists>y \<in> set ?all. same_chunk d1 y"
    using same_chunk_refl by blast
  then have "length (filter (same_chunk d1) (remove_duplicates ?all)) = 1"
    by (simp add: remove_duplicates_count)
  moreover have "same_chunk d1 = (\<lambda>d. document_id d = document_id d1 \<and> content d = content d1)"
    by (auto simp: same_chunk_def fun_eq_iff)
  moreover have "set (remove_duplicates ?all) \<subseteq> (\<Union>q \<in> set queries. set (projr (search q)))"
    using remove_duplicates_subset[of ?all] by auto
  ultimately show ?thesis using g by simp
qed

text \<open>
  Two sub-queries: the first finds chunks \<open>(D1, x)\<close> and \<open>(D1, y)\<close>, the second \<open>(D1, x)\<close>
  again, with another score, and \<open>(D2, x)\<close>.
\<close>

definition example_row :: "string \<Rightarrow> string \<Rightarrow> string \<Rightarrow> real \<Rightarrow> SearchRow" where
  "example_row i d c s = \<lparr>content = c, metadata = [], similarity = s, id = i, document_id = d\<rparr>"

definition example_search :: "string \<Rightarrow> js_error + SearchRow list" where
  "example_search q =
     (if q = ''a'' then Inr [example_row ''1'' ''D1'' ''x'' 0.9, example_row ''2'' ''D1'' ''y'' 0.8]
      else Inr [example_row ''1'' ''D1'' ''x'' 0.5, example_row ''3'' ''D2'' ''x'' 0.4])"

lemma example_gather:
  "gather_documents example_search [''a'', ''b''] =
     [example_row ''1'' ''D1'' ''x'' 0.9, example_row ''2'' ''D1'' ''y'' 0.8, example_row ''3'' ''D2'' ''x'' 0.4]"
  by (simp add: gather_documents_def example_search_def remove_duplicates_def filter_indexed_def
      enumerate_eq_zip upt_rec findIndex_def example_row_def)


theorem chat_deduplicates_witness:
  "length (filter (\<lambda>d. document_id d = ''D1'' \<and> content d = ''x'')
     (gather_documents example_search [''a'', ''b''])) = 1 \<and>
   gather_documents example_search [''a'', ''b''] =
     [example_row ''1'' ''D1'' ''x'' 0.9, example_row ''2'' ''D1'' ''y'' 0.8,
      example_row ''3'' ''D2'' ''x'' 0.4]"
proof -
  have all: "\<forall>q \<in> set [''a'', ''b'']. \<exists>ds. example_search q = Inr ds"
    by (simp add: example_search_def)
  have s1: "example_search ''a'' =
      Inr [example_row ''1'' ''D1'' ''x'' 0.9, example_row ''2'' ''D1'' ''y'' 0.8]"
    and s2: "example_search ''b'' =
      Inr [example_row ''1'' ''D1'' ''x'' 0.5, example_row ''3'' ''D2'' ''x'' 0.4]"
    by (simp_all add: example_search_def)
  from chat_deduplicates_by_document_and_content[OF all _ s1 _ _ s2,
      of "example_row ''1'' ''D1'' ''x'' 0.9" "example_row ''1'' ''D1'' ''x'' 0.5"]
  have "length (filter (\<lambda>d. document_id d = ''D1'' \<and> content d = ''x'')
     (gather_documents example_search [''a'', ''b''])) = 1"
    by (simp add: example_row_def)
  with example_gather show ?thesis by simp
qed


section \<open>The Gemini client: \<open>generateChatResponse\<close> and \<open>decomposeQuery\<close>\<close>

text \<open>
  The language model is outside the program. \<open>getGenerativeModel\<close> is the error the
  constructor throws, if any; \<open>generateContent prompt i\<close> is the outcome of the call in
  iteration \<open>i\<close> of the retry loop: a rejection, or a result whose \<open>response.text()\<close>
  throws or returns the text; \<open>Math_random\<close> is the jitter source.
\<close>

record gemini =
  getGenerativeModel :: "js_error option"
  generateContent :: "string \<Rightarrow> nat \<Rightarrow> js_error + (js_error + string)"
  Math_random :: "nat \<Rightarrow> real"

text \<open>\<open>Array.prototype.join\<close> on strings.\<close>

fun js_join :: "string \<Rightarrow> string list \<Rightarrow> string" where
  "js_join sep [] = []"
| "js_join sep [x] = x"
| "js_join sep (x # y # ys) = x @ sep @ js_join sep (y # ys)"

text \<open>\<open>try { body } catch (error) { handler }\<close> on outcomes.\<close>

fun try_catch :: "js_error + 'a \<Rightarrow> (js_error \<Rightarrow> js_error + 'a) \<Rightarrow> js_error + 'a" where
  "try_catch (Inr v) handler = Inr v"
| "try_catch (Inl error) handler = handler error"

text \<open>
  The model call shared by the functions of the module: construct the model, call
  \<open>generateContent\<close> under \<open>retryWithBackoff\<close> with its defaults, read the text of the
  response. The first error ends it.
\<close>

definition generate_text :: "gemini \<Rightarrow> string \<Rightarrow> (js_error + string) \<times> event list" where
  "generate_text g prompt =
     (case getGenerativeModel g of
        Some error \<Rightarrow> (Inl error, [])
      | None \<Rightarrow>
          (let (result, trace) = retryWithBackoff_gemini (generateContent g prompt) (Math_random g) 3 1000
           in (case result of Inl error \<Rightarrow> Inl error | Inr response \<Rightarrow> response, trace)))"

definition chat_prompt :: "string \<Rightarrow> string \<Rightarrow> string \<Rightarrow> string" where
  \<open>chat_prompt documentContext conversationHistory message =
     ''\<newline>'' @
     ''You are a knowledgeable teacher. You will analyze and answer questions about the uploaded documents, and also draw upon your internal knowledge to relate to the topic. Your goal is to help the user gain a comprehensive understanding of their queries. \<newline>'' @
     ''\<newline>'' @
     ''- Provide well-explained, formal bullet points in your answers.\<newline>'' @
     ''- Add examples wherever you feel necessary to clarify concepts.\<newline>'' @
     ''- Always approach the question from multiple perspectives to ensure a thorough explanation.\<newline>'' @
     ''- Use clear, structured, and educational language to guide the user.\<newline>'' @
     ''- Reference both the provided documents and relevant general knowledge to enrich your response.\<newline>'' @
     ''\<newline>'' @
     ''RELEVANT DOCUMENT CONTEXT:\<newline>'' @
     documentContext @
     ''\<newline>'' @
     ''\<newline>'' @
     ''CONVERSATION HISTORY:\<newline>'' @
     conversationHistory @
     ''\<newline>'' @
     ''\<newline>'' @
     ''USER QUESTION: '' @
     message @
     ''\<newline>'' @
     ''\<newline>'' @
     ''Please provide a comprehensive answer based on the document context. If the question cannot be answered from the provided documents, clearly state that and explain what information is missing.\<newline>'' @
     ''\<newline>'' @
     ''Guidelines:\<newline>'' @
     ''- Always cite which documents or sections you're referencing\<newline>'' @
     ''- Be specific and accurate \<newline>'' @
     ''- If you're unsure about something, say so\<newline>'' @
     ''- Provide relevant quotes when helpful\<newline>'' @
     ''- Keep your response clear and well-structured\<newline>'' @
     ''\<newline>'' @
     ''Answer:\<newline>''\<close>

text \<open>
  \<open>ChatContext\<close>: the retrieved chunks and the earlier turns, each turn a pair of role and
  content.
\<close>

record ChatContext =
  documentChunks :: "ScoredChunk list"
  conversationHistory :: "(string \<times> string) list"

definition service_overloaded_text :: string where
  "service_overloaded_text =
     ''I'm sorry, but the AI service is currently experiencing high traffic. Please try again in a few moments. In the meantime, I can see you're asking about your documents - could you try rephrasing your question or asking about a specific aspect?''"

definition rate_limited_text :: string where
  "rate_limited_text =
     ''I'm receiving too many requests right now. Please wait a moment and try again.''"

definition malformed_request_text :: string where
  "malformed_request_text =
     ''I encountered an issue processing your request. Could you please rephrase your question or make it more specific?''"

definition generic_failure_text :: string where
  "generic_failure_text =
     ''I'm experiencing technical difficulties right now. Please try again in a few minutes. If the problem persists, the AI service might be temporarily unavailable.''"

definition fallback_response :: "js_error \<Rightarrow> string" where
  "fallback_response error =
     (if status error = Some 503 then service_overloaded_text
      else if status error = Some 429 then rate_limited_text
      else if status error = Some 400 then malformed_request_text
      else generic_failure_text)"

definition build_chat_prompt :: "string \<Rightarrow> ChatContext \<Rightarrow> string" where
  "build_chat_prompt message context =
     (let documentContext =
            js_join ''\<newline>\<newline>'' (map (\<lambda>chunk. ''Document: '' @ content chunk) (documentChunks context));
          history =
            js_join ''\<newline>'' (map (\<lambda>(role, c). role @ '': '' @ c) (conversationHistory context))
      in chat_prompt documentContext history message)"

definition generateChatResponse ::
  "gemini \<Rightarrow> string \<Rightarrow> ChatContext \<Rightarrow> (js_error + string) \<times> event list" where
  "generateChatResponse g message context =
     (let prompt = build_chat_prompt message context;
          (result, trace) = generate_text g prompt
      in (try_catch result (\<lambda>error. Inr (fallback_response error)), trace))"

text \<open>
  JSON values, as \<open>JSON.parse\<close> returns them. The parser belongs to the runtime and is a
  parameter of \<open>decomposeQuery\<close>: \<open>Inl\<close> is the \<open>SyntaxError\<close> it throws.
\<close>

datatype json =
  JNull | JBool bool | JNumber real | JString string | JArray "json list" | JObject "(string \<times> json) list"

text \<open>
  \<open>String.prototype.trim\<close>: white space and line terminators are removed at both ends
  (the code units 9 to 13, 32 and 160 among the first 256).
\<close>

definition js_whitespace :: "char \<Rightarrow> bool" where
  "js_whitespace c \<longleftrightarrow> (of_char c :: nat) \<in> {9, 10, 11, 12, 13, 32, 160}"

definition js_trim :: "string \<Rightarrow> string" where
  "js_trim s = rev (dropWhile js_whitespace (rev (dropWhile js_whitespace s)))"

text \<open>
  \<open>replace(/^```json\n|\n```$/g, '')\<close>: the opening fence is removed at the very start, the
  closing fence at the very end of what remains.
\<close>

definition strip_code_fence :: "string \<Rightarrow> string" where
  "strip_code_fence s =
     (let opening = ''```json\<newline>'';
          closing = ''\<newline>```'';
          s1 = (if take (length opening) s = opening then drop (length opening) s else s)
      in if length closing \<le> length s1 \<and> drop (length s1 - length closing) s1 = closing
         then take (length s1 - length closing) s1 else s1)"

definition decompose_prompt :: "string \<Rightarrow> string" where
  \<open>decompose_prompt query =
     ''\<newline>'' @
     ''Given the following user query, decompose it into a list of simpler, atomic sub-queries or rephrase it from different relevant perspectives. The goal is to ensure comprehensive retrieval of information.\<newline>'' @
     ''\<newline>'' @
     ''Return the decomposed queries as a JSON array of strings. Do NOT include any other text or formatting.\<newline>'' @
     ''\<newline>'' @
     ''Example:\<newline>'' @
     ''User Query: "What are the key findings and methodologies of the latest research on climate change?"\<newline>'' @
     ''Decomposed Queries: [\<newline>'' @
     ''  "key findings of the latest research on climate change",\<newline>'' @
     ''  "methodologies used in the latest research on climate change",\<newline>'' @
     ''  "recent advancements in climate change research"\<newline>'' @
     '']\<newline>'' @
     ''\<newline>'' @
     ''User Query: "'' @
     query @
     ''"\<newline>'' @
     ''Decomposed Queries:\<newline>''\<close>

definition parse_queries :: "(string \<Rightarrow> js_error + json) \<Rightarrow> string \<Rightarrow> string \<Rightarrow> json list" where
  "parse_queries JSON_parse query cleanedResponseText =
     (let decomposedQueries =
            (case JSON_parse cleanedResponseText of
               Inl parseError \<Rightarrow> [JString query]
             | Inr (JArray xs) \<Rightarrow> xs
             | Inr _ \<Rightarrow> [JString query])
      in if length decomposedQueries = 0 then decomposedQueries @ [JString query]
         else decomposedQueries)"

definition decomposeQuery ::
  "gemini \<Rightarrow> (string \<Rightarrow> js_error + json) \<Rightarrow> string \<Rightarrow> (js_error + json list) \<times> event list" where
  "decomposeQuery g JSON_parse query =
     (let prompt = decompose_prompt query;
          (result, trace) = generate_text g prompt;
          body =
            (case result of
               Inl error \<Rightarrow> Inl error
             | Inr text \<Rightarrow>
                 (let responseText = js_trim text;
                      cleanedResponseText = js_trim (strip_code_fence responseText)
                  in Inr (parse_queries JSON_parse query cleanedResponseText)))
      in (try_catch body (\<lambda>error. Inr [JString query]), trace))"


subsection \<open>C8: a textual answer whatever the model does\<close>

lemma fallback_texts_distinct:
  "distinct [service_overloaded_text, rate_limited_text, malformed_request_text, generic_failure_text]"
  by (simp add: service_overloaded_text_def rate_limited_text_def malformed_request_text_def
      generic_failure_text_def)

lemma generate_text_retry:
  "getGenerativeModel g = None \<Longrightarrow>
   fst (retryWithBackoff_gemini (generateContent g prompt) (Math_random g) 3 1000) = Inl error \<Longrightarrow>
   fst (generate_text g prompt) = Inl error"
  by (auto simp: generate_text_def split: prod.splits)

lemma generateChatResponse_cases:
  "fst (generateChatResponse g message context) =
     (case fst (generate_text g (build_chat_prompt message context)) of
        Inl error \<Rightarrow> Inr (fallback_response error)
      | Inr answer \<Rightarrow> Inr answer)"
  by (simp add: generateChatResponse_def Let_def split: prod.splits sum.splits)

text \<open>
  C8. \<open>generateChatResponse\<close> never raises: its outcome is always a text. When the model
  call fails (\<open>retryWithBackoff\<close> ends with an error, after exhaustion or at once), the
  text is the canned apology chosen by the error's status: one for 503, one for 429, one
  for 400 and one for everything else, and the four texts are pairwise different.
\<close>

theorem generateChatResponse_never_raises:
  "(\<exists>answer. fst (generateChatResponse g message context) = Inr answer) \<and>
   (getGenerativeModel g = None \<and>
    fst (retryWithBackoff_gemini (generateContent g (build_chat_prompt message context))
           (Math_random g) 3 1000) = Inl error \<longrightarrow>
      fst (generateChatResponse g message context) = Inr (fallback_response error)) \<and>
   fallback_response error =
     (if status error = Some 503 then service_overloaded_text
      else if status error = Some 429 then rate_limited_text
      else if status error = Some 400 then malformed_request_text
      else generic_failure_text) \<and>
   distinct [service_overloaded_text, rate_limited_text, malformed_request_text, generic_failure_text]"
proof (intro conjI impI)
  show "\<exists>answer. fst (generateChatResponse g message context) = Inr answer"
    unfolding generateChatResponse_cases by (simp split: sum.splits)
next
  assume "getGenerativeModel g = None \<and>
    fst (retryWithBackoff_gemini (generateContent g (build_chat_prompt message context))
           (Math_random g) 3 1000) = Inl error"
  then have "fst (generate_text g (build_chat_prompt message context)) = Inl error"
    using generate_text_retry by blast
  then show "fst (generateChatResponse g message context) = Inr (fallback_response error)"
    unfolding generateChatResponse_cases by simp
next
  show "fallback_response error =
     (if status error = Some 503 then service_overloaded_text
      else if status error = Some 429 then rate_limited_text
      else if status error = Some 400 then malformed_request_text
      else generic_failure_text)"
    by (simp add: fallback_response_def)
next
  show "distinct [service_overloaded_text, rate_limited_text, malformed_request_text, generic_failure_text]"
    by (rule fallback_texts_distinct)
qed

text \<open>A model whose every call fails with a given status.\<close>

definition status_error :: "int \<Rightarrow> js_error" where
  "status_error n = \<lparr>error_message = ''upstream'', status = Some n, httpResponse_status = None\<rparr>"

definition failing_gemini :: "int \<Rightarrow> gemini" where
  "failing_gemini n =
     \<lparr>getGenerativeModel = None, generateContent = (\<lambda>prompt i. Inl (status_error n)),
      Math_random = (\<lambda>i. 0)\<rparr>"

definition empty_context :: ChatContext where
  "empty_context = \<lparr>documentChunks = [], conversationHistory = []\<rparr>"

lemma failing_gemini_retry:
  "fst (retryWithBackoff_gemini (generateContent (failing_gemini n) prompt)
          (Math_random (failing_gemini n)) 3 1000) = Inl (status_error n)"
  unfolding retryWithBackoff_def
  by (subst retryWithBackoff_from_step, simp add: failing_gemini_def,
      subst retryWithBackoff_from_step, simp add: failing_gemini_def,
      subst retryWithBackoff_from_step, simp add: failing_gemini_def)

theorem generateChatResponse_never_raises_witness:
  "fst (generateChatResponse (failing_gemini 503) ''hello'' empty_context) = Inr service_overloaded_text \<and>
   fst (generateChatResponse (failing_gemini 429) ''hello'' empty_context) = Inr rate_limited_text \<and>
   fst (generateChatResponse (failing_gemini 400) ''hello'' empty_context) = Inr malformed_request_text \<and>
   fst (generateChatResponse (failing_gemini 403) ''hello'' empty_context) = Inr generic_failure_text"
proof -
  have g: "getGenerativeModel (failing_gemini n) = None" for n
    by (simp add: failing_gemini_def)
  have "fst (generateChatResponse (failing_gemini n) ''hello'' empty_context) =
          Inr (fallback_response (status_error n))" for n
    using generateChatResponse_never_raises[of "failing_gemini n" "''hello''" empty_context "status_error n"]
      g[of n] failing_gemini_retry[of n] by blast
  then show ?thesis
    by (simp add: fallback_response_def status_error_def)
qed


subsection \<open>C4: the decomposition floor\<close>

definition cleaned_response :: "string \<Rightarrow> string" where
  "cleaned_response text = js_trim (strip_code_fence (js_trim text))"

lemma parse_queries_cases:
  "parse_queries JSON_parse query cleaned =
     (case JSON_parse cleaned of
        Inr (JArray (x # xs)) \<Rightarrow> x # xs
      | _ \<Rightarrow> [JString query])"
  by (simp add: parse_queries_def Let_def split: sum.splits json.splits list.splits)

lemma decomposeQuery_cases:
  "fst (decomposeQuery g JSON_parse query) =
     Inr (case fst (generate_text g (decompose_prompt query)) of
            Inl error \<Rightarrow> [JString query]
          | Inr text \<Rightarrow> parse_queries JSON_parse query (cleaned_response text))"
  by (simp add: decomposeQuery_def cleaned_response_def Let_def split: prod.splits sum.splits)

text \<open>
  C4. For every query \<open>decomposeQuery\<close> returns a non-empty list. When the model call
  fails, when the cleaned response does not parse, and when it parses to anything but a
  non-empty array (an empty array, or a value that is not an array), the result is the
  singleton list of the original query, unmodified; a non-empty array is returned as it
  is.
\<close>

theorem decomposeQuery_floor:
  "(\<exists>queries. fst (decomposeQuery g JSON_parse query) = Inr queries \<and> queries \<noteq> []) \<and>
   (fst (generate_text g (decompose_prompt query)) = Inl error \<longrightarrow>
      fst (decomposeQuery g JSON_parse query) = Inr [JString query]) \<and>
   (fst (generate_text g (decompose_prompt query)) = Inr text \<and>
    JSON_parse (cleaned_response text) = Inl parseError \<longrightarrow>
      fst (decomposeQuery g JSON_parse query) = Inr [JString query]) \<and>
   (fst (generate_text g (decompose_prompt query)) = Inr text \<and>
    JSON_parse (cleaned_response text) = Inr v \<and> (\<forall>x xs. v \<noteq> JArray (x # xs)) \<longrightarrow>
      fst (decomposeQuery g JSON_parse query) = Inr [JString query]) \<and>
   (fst (generate_text g (decompose_prompt query)) = Inr text \<and>
    JSON_parse (cleaned_response text) = Inr (JArray (x # xs)) \<longrightarrow>
      fst (decomposeQuery g JSON_parse query) = Inr (x # xs))"
proof (intro conjI impI)
  show "\<exists>queries. fst (decomposeQuery g JSON_parse query) = Inr queries \<and> queries \<noteq> []"
    unfolding decomposeQuery_cases parse_queries_cases
    by (simp split: sum.splits json.splits list.splits)
next
  assume "fst (generate_text g (decompose_prompt query)) = Inl error"
  then show "fst (decomposeQuery g JSON_parse query) = Inr [JString query]"
    unfolding decomposeQuery_cases by simp
next
  assume "fst (generate_text g (decompose_prompt query)) = Inr text \<and>
    JSON_parse (cleaned_response text) = Inl parseError"
  then show "fst (decomposeQuery g JSON_parse query) = Inr [JString query]"
    unfolding decomposeQuery_cases parse_queries_cases by simp
next
  assume "fst (generate_text g (decompose_prompt query)) = Inr text \<and>
    JSON_parse (cleaned_response text) = Inr v \<and> (\<forall>x xs. v \<noteq> JArray (x # xs))"
  then show "fst (decomposeQuery g JSON_parse query) = Inr [JString query]"
    unfolding decomposeQuery_cases parse_queries_cases
    by (simp split: json.splits list.splits)
next
  assume "fst (generate_text g (decompose_prompt query)) = Inr text \<and>
    JSON_parse (cleaned_response text) = Inr (JArray (x # xs))"
  then show "fst (decomposeQuery g JSON_parse query) = Inr (x # xs)"
    unfolding decomposeQuery_cases parse_queries_cases by simp
qed

text \<open>
  A model that answers with a fenced list, one that answers with prose, and a parser that
  reads the list \<open>[1, 2]\<close> and the empty list and rejects everything else.
\<close>

definition answering_gemini :: "string \<Rightarrow> gemini" where
  "answering_gemini answer =
     \<lparr>getGenerativeModel = None, generateContent = (\<lambda>prompt i. Inr (Inr answer)),
      Math_random = (\<lambda>i. 0)\<rparr>"

definition example_parse :: "string \<Rightarrow> js_error + json" where
  "example_parse s =
     (if s = ''[1, 2]'' then Inr (JArray [JNumber 1, JNumber 2])
      else if s = ''[]'' then Inr (JArray [])
      else Inl \<lparr>error_message = ''Unexpected token'', status = None, httpResponse_status = None\<rparr>)"

lemma answering_gemini_text:
  "fst (generate_text (answering_gemini answer) prompt) = Inr answer"
  unfolding generate_text_def retryWithBackoff_def
  by (subst retryWithBackoff_from_step) (simp add: answering_gemini_def gives_up_def)

lemma cleaned_fenced: "cleaned_response '' ```json\<newline>[1, 2]\<newline>```\<newline>'' = ''[1, 2]''"
  by (simp add: cleaned_response_def js_trim_def strip_code_fence_def js_whitespace_def)

lemma cleaned_prose: "cleaned_response ''Sure, here you go: '' = ''Sure, here you go:''"
  by (simp add: cleaned_response_def js_trim_def strip_code_fence_def js_whitespace_def)

lemma cleaned_empty_list: "cleaned_response ''[]'' = ''[]''"
  by (simp add: cleaned_response_def js_trim_def strip_code_fence_def js_whitespace_def)

theorem decomposeQuery_floor_witness:
  "fst (decomposeQuery (answering_gemini '' ```json\<newline>[1, 2]\<newline>```\<newline>'') example_parse ''q'')
     = Inr [JNumber 1, JNumber 2] \<and>
   fst (decomposeQuery (answering_gemini ''Sure, here you go: '') example_parse ''q'') = Inr [JString ''q''] \<and>
   fst (decomposeQuery (answering_gemini ''[]'') example_parse ''q'') = Inr [JString ''q''] \<and>
   fst (decomposeQuery (failing_gemini 503) example_parse ''q'') = Inr [JString ''q'']"
proof -
  have 1: "fst (decomposeQuery (answering_gemini '' ```json\<newline>[1, 2]\<newline>```\<newline>'') example_parse ''q'')
     = Inr [JNumber 1, JNumber 2]"
    using decomposeQuery_floor[of "answering_gemini '' ```json\<newline>[1, 2]\<newline>```\<newline>''" example_parse "''q''"
        undefined "'' ```json\<newline>[1, 2]\<newline>```\<newline>''" undefined undefined "JNumber 1" "[JNumber 2]"]
    by (simp add: answering_gemini_text cleaned_fenced example_parse_def)
  have 2: "fst (decomposeQuery (answering_gemini ''Sure, here you go: '') example_parse ''q'') = Inr [JString ''q'']"
    using decomposeQuery_floor[of "answering_gemini ''Sure, here you go: ''" example_parse "''q''"
        undefined "''Sure, here you go: ''"
        "\<lparr>error_message = ''Unexpected token'', status = None, httpResponse_status = None\<rparr>"]
    by (simp add: answering_gemini_text cleaned_prose example_parse_def)
  have 3: "fst (decomposeQuery (answering_gemini ''[]'') example_parse ''q'') = Inr [JString ''q'']"
    using decomposeQuery_floor[of "answering_gemini ''[]''" example_parse "''q''"
        undefined "''[]''" undefined "JArray []"]
    by (simp add: answering_gemini_text cleaned_empty_list example_parse_def)
  have "fst (generate_text (failing_gemini 503) (decompose_prompt ''q'')) = Inl (status_error 503)"
    using generate_text_retry[OF _ failing_gemini_retry] by (simp add: failing_gemini_def)
  then have 4: "fst (decomposeQuery (failing_gemini 503) example_parse ''q'') = Inr [JString ''q'']"
    using decomposeQuery_floor[of "failing_gemini 503" example_parse "''q''" "status_error 503"]
    by simp
  from 1 2 3 4 show ?thesis by simp
qed


section \<open>Embedding service adapter\<close>

text \<open>
  The first loop of \<open>generateDeterministicEmbedding\<close>, with the loop variable \<open>i\<close> and the
  array as arguments. \<open>text\<close> is the list of the code units that \<open>charCodeAt\<close> reads;
  JavaScript numbers are modelled by real numbers, so rounding is not part of the model.
\<close>

function accumulate_chars :: "nat list \<Rightarrow> nat \<Rightarrow> real list \<Rightarrow> real list" where
  "accumulate_chars text i embedding =
     (if i < length text then
        (let char = text ! i;
             index = (char + i) mod 384
         in accumulate_chars text (i + 1)
              (embedding[index := embedding ! index + sin (real char * 0.1) * 0.5]))
      else embedding)"
  by pat_completeness auto
termination
  by (relation "measure (\<lambda>(text, i, embedding). length text - i)") auto

declare accumulate_chars.simps [simp del]

text \<open>The second loop: \<open>embedding[i] /= magnitude\<close> for every index.\<close>

function divide_all :: "real \<Rightarrow> nat \<Rightarrow> real list \<Rightarrow> real list" where
  "divide_all magnitude i embedding =
     (if i < length embedding then
        divide_all magnitude (i + 1) (embedding[i := embedding ! i / magnitude])
      else embedding)"
  by pat_completeness auto
termination
  by (relation "measure (\<lambda>(magnitude, i, embedding). length embedding - i)") auto

declare divide_all.simps [simp del]

definition generateDeterministicEmbedding :: "nat list \<Rightarrow> real list" where
  "generateDeterministicEmbedding text =
     (let embedding = accumulate_chars text 0 (replicate 384 0);
          magnitude = sqrt (foldl (\<lambda>sum val. sum + val * val) 0 embedding)
      in if magnitude > 0 then divide_all magnitude 0 embedding else embedding)"

text \<open>
  The reference definition, in the words of the design: component \<open>k\<close> of the accumulated
  vector is the sum of \<open>sin(c * 0.1) * 0.5\<close> over the positions \<open>i\<close> whose character \<open>c\<close> has
  \<open>(c + i) mod 384 = k\<close>; every component is divided by the Euclidean norm, and the vector
  is all-zero when the norm is 0.
\<close>

definition reference_component :: "nat list \<Rightarrow> nat \<Rightarrow> real" where
  "reference_component text k =
     (\<Sum>i \<in> {i. i < length text \<and> (text ! i + i) mod 384 = k}. sin (real (text ! i) * 0.1) * 0.5)"

definition reference_embedding :: "nat list \<Rightarrow> real list" where
  "reference_embedding text =
     (let v = map (reference_component text) [0..<384];
          norm = sqrt (\<Sum>x\<leftarrow>v. x\<^sup>2)
      in if norm = 0 then replicate 384 0 else map (\<lambda>x. x / norm) v)"

subsection \<open>The loops compute the reference vector\<close>

definition partial_component :: "nat list \<Rightarrow> nat \<Rightarrow> nat \<Rightarrow> real" where
  "partial_component t n k =
     (\<Sum>i \<in> {i. i < n \<and> (t ! i + i) mod 384 = k}. sin (real (t ! i) * 0.1) * 0.5)"

lemma partial_component_Suc:
  "partial_component t (Suc n) k =
     partial_component t n k + (if (t ! n + n) mod 384 = k then sin (real (t ! n) * 0.1) * 0.5 else 0)"
proof (cases "(t ! n + n) mod 384 = k")
  case True
  have "{i. i < Suc n \<and> (t ! i + i) mod 384 = k} = insert n {i. i < n \<and> (t ! i + i) mod 384 = k}"
    using True by (auto simp: less_Suc_eq)
  then show ?thesis using True by (simp add: partial_component_def)
next
  case False
  have "{i. i < Suc n \<and> (t ! i + i) mod 384 = k} = {i. i < n \<and> (t ! i + i) mod 384 = k}"
    using False by (auto simp: less_Suc_eq)
  then show ?thesis using False by (simp add: partial_component_def)
qed

lemma accumulate_chars_inv:
  assumes "i \<le> length t" "embedding = map (partial_component t i) [0..<384]"
  shows "accumulate_chars t i embedding = map (partial_component t (length t)) [0..<384]"
  using assms
proof (induction t i embedding rule: accumulate_chars.induct)
  case (1 t i embedding)
  show ?case
  proof (cases "i < length t")
    case False
    with "1.prems" show ?thesis by (subst accumulate_chars.simps) simp
  next
    case True
    let ?idx = "(t ! i + i) mod 384"
    have idx: "?idx < 384" by simp
    have upd: "embedding[?idx := embedding ! ?idx + sin (real (t ! i) * 0.1) * 0.5]
        = map (partial_component t (Suc i)) [0..<384]"
      unfolding "1.prems"(2)
      by (rule nth_equalityI) (auto simp: partial_component_Suc nth_list_update simp del: upt_Suc)
    from "1.IH"[OF True refl refl _ ] True upd
    have "accumulate_chars t (i + 1) (embedding[?idx := embedding ! ?idx + sin (real (t ! i) * 0.1) * 0.5])
        = map (partial_component t (length t)) [0..<384]"
      by simp
    then show ?thesis using True by (subst accumulate_chars.simps) (simp add: Let_def)
  qed
qed

lemma accumulate_chars_reference:
  "accumulate_chars t 0 (replicate 384 0) = map (reference_component t) [0..<384]"
proof -
  have "replicate 384 (0::real) = map (partial_component t 0) [0..<384]"
    by (rule nth_equalityI) (simp_all add: partial_component_def del: upt_Suc)
  from accumulate_chars_inv[OF _ this]
  have "accumulate_chars t 0 (replicate 384 0) = map (partial_component t (length t)) [0..<384]"
    by simp
  moreover have "partial_component t (length t) = reference_component t"
    by (simp add: fun_eq_iff partial_component_def reference_component_def)
  ultimately show ?thesis by simp
qed

lemma divide_all_from:
  "i \<le> length e \<Longrightarrow> divide_all m i e = take i e @ map (\<lambda>x. x / m) (drop i e)"
proof (induction m i e rule: divide_all.induct)
  case (1 m i e)
  show ?case
  proof (cases "i < length e")
    case False
    with "1.prems" show ?thesis by (subst divide_all.simps) simp
  next
    case True
    from "1.IH"[OF True] True
    have "divide_all m (i + 1) (e[i := e ! i / m]) =
        take (i + 1) (e[i := e ! i / m]) @ map (\<lambda>x. x / m) (drop (i + 1) (e[i := e ! i / m]))"
      by simp
    also have "\<dots> = take i e @ map (\<lambda>x. x / m) (drop i e)"
      using True
      by (simp add: take_Suc_conv_app_nth Cons_nth_drop_Suc[symmetric])
    finally show ?thesis using True by (subst divide_all.simps) simp
  qed
qed

lemma foldl_squares: "foldl (\<lambda>sum val. sum + val * val) a xs = a + (\<Sum>x\<leftarrow>xs. x\<^sup>2)" for a :: real
  by (induction xs arbitrary: a) (simp_all add: power2_eq_square)

lemma sum_squares_nonneg: "0 \<le> (\<Sum>x\<leftarrow>xs. x\<^sup>2)" for xs :: "real list"
  by (induction xs) simp_all

lemma sum_squares_zero:
  fixes xs :: "real list"
  shows "(\<Sum>x\<leftarrow>xs. x\<^sup>2) = 0 \<Longrightarrow> xs = replicate (length xs) 0"
proof (induction xs)
  case Nil
  then show ?case by simp
next
  case (Cons x xs)
  have "x\<^sup>2 + (\<Sum>x\<leftarrow>xs. x\<^sup>2) = 0" using Cons.prems by simp
  then have "x\<^sup>2 = 0 \<and> (\<Sum>x\<leftarrow>xs. x\<^sup>2) = 0"
    using sum_squares_nonneg[of xs] by (simp add: add_nonneg_eq_0_iff)
  with Cons.IH show ?case by simp
qed

subsection \<open>C5: the fallback embedding is the reference embedding\<close>

text \<open>
  C5. \<open>generateDeterministicEmbedding\<close> equals the reference definition: a vector of length
  384 whose component \<open>k\<close> collects \<open>sin(c * 0.1) * 0.5\<close> from every position \<open>i\<close> with
  \<open>(c + i) mod 384 = k\<close>, divided by its Euclidean norm, and all-zero when the norm is 0.
\<close>

theorem generateDeterministicEmbedding_reference:
  "generateDeterministicEmbedding text = reference_embedding text \<and>
   length (generateDeterministicEmbedding text) = 384"
proof -
  let ?v = "map (reference_component text) [0..<384]"
  let ?s = "\<Sum>x\<leftarrow>?v. x\<^sup>2"
  have nn: "0 \<le> ?s" by (rule sum_squares_nonneg)
  have len: "length ?v = 384" by simp
  show ?thesis
  proof (cases "sqrt ?s > 0")
    case True
    then have "sqrt ?s \<noteq> 0" by simp
    with True show ?thesis
      by (simp add: generateDeterministicEmbedding_def reference_embedding_def Let_def
          accumulate_chars_reference foldl_squares divide_all_from del: upt_Suc)
  next
    case False
    then have z: "?s = 0" using nn by (simp add: not_less)
    have "?v = replicate 384 0"
      using sum_squares_zero[OF z] by (simp del: upt_Suc)
    with False z show ?thesis
      by (simp add: generateDeterministicEmbedding_def reference_embedding_def Let_def
          accumulate_chars_reference foldl_squares del: upt_Suc)
  qed
qed

lemma reference_component_single:
  "reference_component [c] k = (if c mod 384 = k then sin (real c * 0.1) * 0.5 else 0)"
proof -
  have "{i. i < length [c] \<and> ([c] ! i + i) mod 384 = k} = (if c mod 384 = k then {0} else {})"
    by auto
  then show ?thesis by (simp add: reference_component_def)
qed

lemma reference_vector_single:
  assumes "c < 384"
  shows "map (reference_component [c]) [0..<384] =
         replicate c 0 @ [sin (real c * 0.1) * 0.5] @ replicate (383 - c) 0"
  using assms
  by (intro nth_equalityI) (auto simp: reference_component_single nth_append nth_Cons' simp del: upt_Suc)

text \<open>
  The empty text gives the zero vector (the norm is 0). The text of one line feed (code
  10) gives the unit vector at index 10: \<open>sin 1 * 0.5\<close> is positive and is divided by itself.
\<close>

theorem generateDeterministicEmbedding_reference_witness:
  "generateDeterministicEmbedding [] = replicate 384 0 \<and>
   generateDeterministicEmbedding [10] = replicate 10 0 @ [1] @ replicate 373 0"
proof -
  have "map (reference_component []) [0..<384] = replicate 384 0"
    by (rule nth_equalityI) (simp_all add: reference_component_def del: upt_Suc)
  then have "reference_embedding [] = replicate 384 0"
    by (simp add: reference_embedding_def Let_def del: upt_Suc)
  with generateDeterministicEmbedding_reference[of "[]"]
  have 1: "generateDeterministicEmbedding [] = replicate 384 0" by simp
  have pos: "0 < sin (1::real)"
    using sin_gt_zero[of 1] pi_ge_two by simp
  have v: "map (reference_component [10]) [0..<384] = replicate 10 0 @ [sin 1 * 0.5] @ replicate 373 0"
    using reference_vector_single[of 10] by simp
  have n: "sqrt (\<Sum>x\<leftarrow>replicate 10 0 @ [sin 1 * 0.5] @ replicate 373 0. x\<^sup>2) = sin 1 * 0.5"
    using pos by (simp add: sum_list_replicate)
  have "reference_embedding [10] = replicate 10 0 @ [1] @ replicate 373 0"
    unfolding reference_embedding_def v Let_def n using pos by simp
  with generateDeterministicEmbedding_reference[of "[10]"]
  have 2: "generateDeterministicEmbedding [10] = replicate 10 0 @ [1] @ replicate 373 0" by simp
  from 1 2 show ?thesis by simp
qed

subsection \<open>\<open>generateEmbedding\<close>\<close>

text \<open>
  The Hugging Face client is outside the program: \<open>featureExtraction text i\<close> is the
  outcome of the call in iteration \<open>i\<close> of the retry loop, a rejection or an array of
  numbers, possibly nested one level; \<open>hf_random\<close> is the jitter source.
\<close>

datatype hf_response = Numbers "real list" | Nested "real list list"

record hugging_face =
  featureExtraction :: "string \<Rightarrow> nat \<Rightarrow> js_error + hf_response"
  hf_random :: "nat \<Rightarrow> real"

record embedding_result =
  embedding :: "real list"
  model :: string

text \<open>\<open>Array.isArray(response[0]) ? response[0] : response\<close>.\<close>

fun flatten_response :: "hf_response \<Rightarrow> real list" where
  "flatten_response (Numbers xs) = xs"
| "flatten_response (Nested []) = []"
| "flatten_response (Nested (x # xs)) = x"

definition generateEmbedding :: "hugging_face \<Rightarrow> string \<Rightarrow> embedding_result \<times> event list" where
  "generateEmbedding hf text =
     (let (response, trace) =
            retryWithBackoff_embeddings (featureExtraction hf text) (hf_random hf) 3 1000;
          body =
            (case response of
               Inl error \<Rightarrow> Inl error
             | Inr response \<Rightarrow>
                 (let embedding = flatten_response response
                  in if length embedding = 0 then
                       Inl \<lparr>error_message = ''Invalid embedding response from Hugging Face'',
                            status = None, httpResponse_status = None\<rparr>
                     else Inr \<lparr>embedding = embedding, model = ''huggingface''\<rparr>))
      in (case body of
            Inr result \<Rightarrow> result
          | Inl error \<Rightarrow>
              \<lparr>embedding = generateDeterministicEmbedding (map of_char text), model = ''fallback''\<rparr>,
          trace))"

section \<open>Retrieval engine: \<open>searchSimilarDocuments\<close>\<close>

text \<open>
  The two tables the retrieval reads, with the columns it uses. A timestamp is an
  integer; an embedding column may be null.
\<close>

record documents_row =
  d_id :: string
  d_user_id :: string
  d_created_at :: int

record document_embeddings_row =
  de_id :: string
  de_document_id :: string
  de_content :: string
  de_metadata :: "(string \<times> meta_value) list"
  de_embedding :: "real list option"

record database =
  documents :: "documents_row list"
  document_embeddings :: "document_embeddings_row list"

text \<open>
  \<open>document_embeddings de join documents d on d.id = de.document_id\<close>, in the order of a
  scan of the tables.
\<close>

definition joined :: "database \<Rightarrow> (document_embeddings_row \<times> documents_row) list" where
  "joined db =
     concat (map (\<lambda>de. map (\<lambda>d. (de, d)) (filter (\<lambda>d. d_id d = de_document_id de) (documents db)))
       (document_embeddings db))"

text \<open>
  An awaited Supabase request either rejects (the \<open>await\<close> throws) or resolves to an
  object \<open>{data, error}\<close>, each of which may be null.
\<close>

datatype 'a supabase_result = Rejected js_error | Resolved "'a option" "js_error option"

record rpc_params =
  query_embedding :: "real list"
  user_id :: string
  match_threshold :: real
  match_count :: int
  keyword_query :: "string option"

text \<open>
  A select as the query builder describes it to the datastore: \<open>from(table)\<close>, the items
  of \<open>select(...)\<close>, the column and value of \<open>eq(column, value)\<close>, the column of
  \<open>order(column, {ascending})\<close> with its direction when the code calls \<open>order\<close>, and the
  argument of \<open>limit(...)\<close>.
\<close>

record select_query =
  from_table :: string
  select_columns :: "string list"
  eq_filter :: "string \<times> string"
  order_by :: "(string \<times> bool) option"
  row_limit :: int

text \<open>
  The datastore is outside the program: \<open>run_select\<close> is its answer to a select, and
  \<open>rpc_search_documents_hybrid\<close> its answer to the call of the search function. An answer
  row is a row of \<open>document_embeddings\<close> with its document.
\<close>

record supabase =
  run_select :: "select_query \<Rightarrow> (document_embeddings_row \<times> documents_row) list supabase_result"
  rpc_search_documents_hybrid :: "rpc_params \<Rightarrow> SearchRow list supabase_result"

text \<open>
  The two selects that \<open>searchSimilarDocuments\<close> builds: the existence check of lines 144 to
  154 (no \<open>order\<close>, \<open>limit(5)\<close>) and the select of the \<open>catch\<close> block, lines 210 to 221
  (\<open>order("documents.created_at", { ascending: false })\<close>, \<open>limit(limit)\<close>).
\<close>

definition user_embeddings_query :: "string \<Rightarrow> select_query" where
  "user_embeddings_query userId =
     \<lparr>from_table = ''document_embeddings'',
      select_columns = [''id'', ''document_id'', ''content'', ''metadata'', ''documents!inner(user_id, name)''],
      eq_filter = (''documents.user_id'', userId),
      order_by = None,
      row_limit = 5\<rparr>"

definition recent_embeddings_query :: "string \<Rightarrow> int \<Rightarrow> select_query" where
  "recent_embeddings_query userId limit =
     \<lparr>from_table = ''document_embeddings'',
      select_columns = [''id'', ''document_id'', ''content'', ''metadata'',
                        ''documents!inner(user_id, name, created_at)''],
      eq_filter = (''documents.user_id'', userId),
      order_by = Some (''documents.created_at'', False),
      row_limit = limit\<rparr>"

text \<open>A row of a select as it is returned to the caller, with the mock similarity.\<close>

definition mock_similarity :: "document_embeddings_row \<times> documents_row \<Rightarrow> SearchRow" where
  "mock_similarity = (\<lambda>(de, d).
     \<lparr>content = de_content de, metadata = de_metadata de, similarity = 0.5,
      id = de_id de, document_id = de_document_id de\<rparr>)"

definition search_params :: "hugging_face \<Rightarrow> string \<Rightarrow> string \<Rightarrow> int \<Rightarrow> string option \<Rightarrow> rpc_params" where
  "search_params hf query userId limit keyword =
     \<lparr>query_embedding = embedding (fst (generateEmbedding hf query)), user_id = userId,
      match_threshold = 0.0, match_count = limit, keyword_query = keyword\<rparr>"

definition searchSimilarDocuments ::
  "supabase \<Rightarrow> hugging_face \<Rightarrow> string \<Rightarrow> string \<Rightarrow> int \<Rightarrow> string option \<Rightarrow> js_error + SearchRow list" where
  "searchSimilarDocuments sb hf query userId limit keyword =
     try_catch
       (case run_select sb (user_embeddings_query userId) of
          Rejected error \<Rightarrow> Inl error
        | Resolved userEmbeddings checkError \<Rightarrow>
            (case rpc_search_documents_hybrid sb (search_params hf query userId limit keyword) of
               Rejected error \<Rightarrow> Inl error
             | Resolved data error \<Rightarrow>
                 if error \<noteq> None then
                   Inr (case userEmbeddings of
                          Some rows \<Rightarrow> map mock_similarity rows
                        | None \<Rightarrow> [])
                 else if (data = None \<or> length (the data) = 0) \<and>
                         userEmbeddings \<noteq> None \<and> length (the userEmbeddings) > 0 then
                   Inr (map mock_similarity (the userEmbeddings))
                 else Inr (case data of Some rows \<Rightarrow> rows | None \<Rightarrow> [])))
       (\<lambda>error.
          case run_select sb (recent_embeddings_query userId limit) of
            Rejected error \<Rightarrow> Inl error
          | Resolved recentEmbeddings fallbackError \<Rightarrow>
              if fallbackError \<noteq> None then Inr []
              else Inr (case recentEmbeddings of
                          Some rows \<Rightarrow> map mock_similarity rows
                        | None \<Rightarrow> []))"

text \<open>
  What the program relies on from the datastore, for any select: the rows of an answer
  are no more than the limit asked for, and when the select asks for an order by the
  creation time of the document, they are in that order.
\<close>

definition answers_as_asked ::
  "select_query \<Rightarrow> (document_embeddings_row \<times> documents_row) list \<Rightarrow> bool" where
  "answers_as_asked q rows \<longleftrightarrow>
     length rows \<le> nat (row_limit q) \<and>
     (case order_by q of
        None \<Rightarrow> True
      | Some (column, ascending) \<Rightarrow>
          column \<noteq> ''documents.created_at'' \<or>
          sorted (map (\<lambda>(de, d). if ascending then d_created_at d else - d_created_at d) rows))"

definition honours_selects :: "supabase \<Rightarrow> bool" where
  "honours_selects sb \<longleftrightarrow>
     (\<forall>q rows error. run_select sb q = Resolved (Some rows) error \<longrightarrow> answers_as_asked q rows)"

subsection \<open>C10: the two fallbacks\<close>

lemma rows_of_answer_length:
  assumes "honours_selects sb" and "run_select sb q = Resolved answer error"
  shows "length (case answer of Some rows \<Rightarrow> map mock_similarity rows | None \<Rightarrow> []) \<le> nat (row_limit q)"
  using assms by (cases answer) (auto simp: honours_selects_def answers_as_asked_def)

text \<open>
  C10. Against a datastore that honours the limit and the order of a select: when the
  call of the search function returns an error, \<open>searchSimilarDocuments\<close> returns the rows
  that the existence check gave, each with similarity 0.5; that select asks for five
  rows and for no order, so they are at most five whatever \<open>limit\<close> is and nothing orders
  them by recency. When the call throws, the result is the answer to the select of the
  \<open>catch\<close> block, which asks for \<open>limit\<close> rows in descending order of
  \<open>documents.created_at\<close>: at most \<open>limit\<close> rows, most recent document first, each with
  similarity 0.5, and no row when the datastore answers that select with an error.
\<close>

theorem rpc_error_fallback:
  assumes "honours_selects sb"
  shows
    "(run_select sb (user_embeddings_query userId) = Resolved userEmbeddings checkError \<and>
      rpc_search_documents_hybrid sb (search_params hf query userId limit keyword) = Resolved data (Some error)
        \<longrightarrow> searchSimilarDocuments sb hf query userId limit keyword
              = Inr (case userEmbeddings of Some rows \<Rightarrow> map mock_similarity rows | None \<Rightarrow> [])
          \<and> length (case userEmbeddings of Some rows \<Rightarrow> map mock_similarity rows | None \<Rightarrow> []) \<le> 5
          \<and> (\<forall>r \<in> set (case userEmbeddings of Some rows \<Rightarrow> map mock_similarity rows | None \<Rightarrow> []).
                similarity r = 0.5)) \<and>
     row_limit (user_embeddings_query userId) = 5 \<and>
     order_by (user_embeddings_query userId) = None \<and>
     (run_select sb (user_embeddings_query userId) = Resolved userEmbeddings checkError \<and>
      rpc_search_documents_hybrid sb (search_params hf query userId limit keyword) = Rejected error \<and>
      run_select sb (recent_embeddings_query userId limit) = Resolved recentEmbeddings fallbackError
        \<longrightarrow> searchSimilarDocuments sb hf query userId limit keyword
              = Inr (if fallbackError \<noteq> None then []
                     else case recentEmbeddings of Some rows \<Rightarrow> map mock_similarity rows | None \<Rightarrow> [])
          \<and> length (if fallbackError \<noteq> None then []
                     else case recentEmbeddings of Some rows \<Rightarrow> map mock_similarity rows | None \<Rightarrow> [])
                \<le> nat limit
          \<and> (\<forall>r \<in> set (if fallbackError \<noteq> None then []
                     else case recentEmbeddings of Some rows \<Rightarrow> map mock_similarity rows | None \<Rightarrow> []).
                similarity r = 0.5)
          \<and> (\<forall>rows. recentEmbeddings = Some rows \<longrightarrow>
                sorted (map (\<lambda>(de, d). - d_created_at d) rows))) \<and>
     row_limit (recent_embeddings_query userId limit) = limit \<and>
     order_by (recent_embeddings_query userId limit) = Some (''documents.created_at'', False)"
proof (intro conjI impI allI)
  assume a: "run_select sb (user_embeddings_query userId) = Resolved userEmbeddings checkError \<and>
      rpc_search_documents_hybrid sb (search_params hf query userId limit keyword) = Resolved data (Some error)"
  then show "searchSimilarDocuments sb hf query userId limit keyword
              = Inr (case userEmbeddings of Some rows \<Rightarrow> map mock_similarity rows | None \<Rightarrow> [])"
    by (simp add: searchSimilarDocuments_def)
  from a rows_of_answer_length[OF assms, of "user_embeddings_query userId" userEmbeddings checkError]
  show "length (case userEmbeddings of Some rows \<Rightarrow> map mock_similarity rows | None \<Rightarrow> []) \<le> 5"
    by (simp add: user_embeddings_query_def)
  show "\<forall>r \<in> set (case userEmbeddings of Some rows \<Rightarrow> map mock_similarity rows | None \<Rightarrow> []).
          similarity r = 0.5"
    by (cases userEmbeddings) (auto simp: mock_similarity_def)
next
  show "row_limit (user_embeddings_query userId) = 5"
    by (simp add: user_embeddings_query_def)
next
  show "order_by (user_embeddings_query userId) = None"
    by (simp add: user_embeddings_query_def)
next
  assume a: "run_select sb (user_embeddings_query userId) = Resolved userEmbeddings checkError \<and>
      rpc_search_documents_hybrid sb (search_params hf query userId limit keyword) = Rejected error \<and>
      run_select sb (recent_embeddings_query userId limit) = Resolved recentEmbeddings fallbackError"
  then show "searchSimilarDocuments sb hf query userId limit keyword
              = Inr (if fallbackError \<noteq> None then []
                     else case recentEmbeddings of Some rows \<Rightarrow> map mock_similarity rows | None \<Rightarrow> [])"
    by (simp add: searchSimilarDocuments_def)
  from a rows_of_answer_length[OF assms, of "recent_embeddings_query userId limit" recentEmbeddings fallbackError]
  show "length (if fallbackError \<noteq> None then []
                     else case recentEmbeddings of Some rows \<Rightarrow> map mock_similarity rows | None \<Rightarrow> [])
                \<le> nat limit"
    by (simp add: recent_embeddings_query_def)
  show "\<forall>r \<in> set (if fallbackError \<noteq> None then []
                     else case recentEmbeddings of Some rows \<Rightarrow> map mock_similarity rows | None \<Rightarrow> []).
                similarity r = 0.5"
    by (cases recentEmbeddings) (auto simp: mock_similarity_def)
  fix rows assume "recentEmbeddings = Some rows"
  with a assms have "answers_as_asked (recent_embeddings_query userId limit) rows"
    by (auto simp: honours_selects_def)
  then show "sorted (map (\<lambda>(de, d). - d_created_at d) rows)"
    by (simp add: answers_as_asked_def recent_embeddings_query_def)
next
  show "row_limit (recent_embeddings_query userId limit) = limit"
    by (simp add: recent_embeddings_query_def)
next
  show "order_by (recent_embeddings_query userId limit) = Some (''documents.created_at'', False)"
    by (simp add: recent_embeddings_query_def)
qed


text \<open>
  An example datastore that carries out a select over the two tables: the rows of the
  join whose document has the value asked for, in the order of the scan or, when the
  select asks for it, by the creation time of the document, cut at the limit.
\<close>

definition matches_filter :: "select_query \<Rightarrow> document_embeddings_row \<times> documents_row \<Rightarrow> bool" where
  "matches_filter q = (\<lambda>(de, d).
     if fst (eq_filter q) = ''documents.user_id'' then d_user_id d = snd (eq_filter q) else True)"

definition in_order ::
  "(string \<times> bool) option \<Rightarrow> (document_embeddings_row \<times> documents_row) list
     \<Rightarrow> (document_embeddings_row \<times> documents_row) list" where
  "in_order requested rows =
     (case requested of
        None \<Rightarrow> rows
      | Some (column, ascending) \<Rightarrow>
          if column = ''documents.created_at''
          then sort_key (\<lambda>(de, d). if ascending then d_created_at d else - d_created_at d) rows
          else rows)"

definition pg_run_select ::
  "database \<Rightarrow> select_query \<Rightarrow> (document_embeddings_row \<times> documents_row) list supabase_result" where
  "pg_run_select db q =
     Resolved (Some (take (nat (row_limit q)) (in_order (order_by q) (filter (matches_filter q) (joined db)))))
       None"

lemma pg_run_select_answers:
  "answers_as_asked q (take (nat (row_limit q)) (in_order (order_by q) rows))"
proof (cases "order_by q")
  case None
  then show ?thesis by (simp add: answers_as_asked_def)
next
  case (Some requested)
  obtain column ascending where o: "requested = (column, ascending)" by (cases requested)
  show ?thesis
  proof (cases "column = ''documents.created_at''")
    case False
    with Some o show ?thesis by (simp add: answers_as_asked_def)
  next
    case True
    let ?f = "\<lambda>(de :: document_embeddings_row, d). if ascending then d_created_at d else - d_created_at d"
    have "sorted (map ?f (sort_key ?f rows))" by (rule sorted_sort_key)
    then have "sorted (take (nat (row_limit q)) (map ?f (sort_key ?f rows)))"
      by (rule sorted_wrt_take)
    then have "sorted (map ?f (take (nat (row_limit q)) (sort_key ?f rows)))"
      by (simp add: take_map)
    with Some o True show ?thesis
      by (simp add: answers_as_asked_def in_order_def)
  qed
qed

text \<open>
  A user with an old document of six chunks and a new document of one chunk, stored in
  this order, and \<open>limit = 10\<close>. When the search function returns an error the result is
  the first five chunks of the old document; when it throws, the result is all seven
  chunks, the one of the new document first.
\<close>

definition example_chunk :: "string \<Rightarrow> string \<Rightarrow> document_embeddings_row" where
  "example_chunk n doc =
     \<lparr>de_id = n, de_document_id = doc, de_content = ''chunk '' @ n, de_metadata = [],
      de_embedding = None\<rparr>"

definition example_hit :: "string \<Rightarrow> string \<Rightarrow> SearchRow" where
  "example_hit n doc =
     \<lparr>content = ''chunk '' @ n, metadata = [], similarity = 0.5, id = n, document_id = doc\<rparr>"

definition example_db :: database where
  "example_db =
     \<lparr>documents = [\<lparr>d_id = ''old'', d_user_id = ''u'', d_created_at = 1\<rparr>,
                   \<lparr>d_id = ''new'', d_user_id = ''u'', d_created_at = 2\<rparr>,
                   \<lparr>d_id = ''other'', d_user_id = ''v'', d_created_at = 3\<rparr>],
      document_embeddings =
        [example_chunk ''1'' ''old'', example_chunk ''2'' ''old'', example_chunk ''3'' ''old'',
         example_chunk ''0'' ''other'',
         example_chunk ''4'' ''old'', example_chunk ''5'' ''old'', example_chunk ''6'' ''old'',
         example_chunk ''7'' ''new'']\<rparr>"

definition example_supabase :: "SearchRow list supabase_result \<Rightarrow> supabase" where
  "example_supabase outcome =
     \<lparr>run_select = pg_run_select example_db,
      rpc_search_documents_hybrid = (\<lambda>params. outcome)\<rparr>"

definition example_failure :: js_error where
  "example_failure =
     \<lparr>error_message = ''function not found'', status = None, httpResponse_status = None\<rparr>"

definition example_hf :: hugging_face where
  "example_hf = \<lparr>featureExtraction = (\<lambda>text i. Inr (Numbers [1])), hf_random = (\<lambda>i. 0)\<rparr>"

lemma example_supabase_honours: "honours_selects (example_supabase outcome)"
  unfolding honours_selects_def
proof (intro allI impI)
  fix q rows error
  assume "run_select (example_supabase outcome) q = Resolved (Some rows) error"
  then have "rows = take (nat (row_limit q))
      (in_order (order_by q) (filter (matches_filter q) (joined example_db)))"
    by (simp add: example_supabase_def pg_run_select_def)
  then show "answers_as_asked q rows" by (simp add: pg_run_select_answers)
qed

lemma example_user_rows:
  "filter (matches_filter (user_embeddings_query ''u'')) (joined example_db) =
     [(example_chunk ''1'' ''old'', \<lparr>d_id = ''old'', d_user_id = ''u'', d_created_at = 1\<rparr>),
      (example_chunk ''2'' ''old'', \<lparr>d_id = ''old'', d_user_id = ''u'', d_created_at = 1\<rparr>),
      (example_chunk ''3'' ''old'', \<lparr>d_id = ''old'', d_user_id = ''u'', d_created_at = 1\<rparr>),
      (example_chunk ''4'' ''old'', \<lparr>d_id = ''old'', d_user_id = ''u'', d_created_at = 1\<rparr>),
      (example_chunk ''5'' ''old'', \<lparr>d_id = ''old'', d_user_id = ''u'', d_created_at = 1\<rparr>),
      (example_chunk ''6'' ''old'', \<lparr>d_id = ''old'', d_user_id = ''u'', d_created_at = 1\<rparr>),
      (example_chunk ''7'' ''new'', \<lparr>d_id = ''new'', d_user_id = ''u'', d_created_at = 2\<rparr>)]"
  by (simp add: matches_filter_def user_embeddings_query_def joined_def example_db_def example_chunk_def)

lemma example_recent_rows:
  "filter (matches_filter (recent_embeddings_query ''u'' limit)) (joined example_db) =
   filter (matches_filter (user_embeddings_query ''u'')) (joined example_db)"
  by (simp add: matches_filter_def user_embeddings_query_def recent_embeddings_query_def)

lemma example_check_answer:
  "run_select (example_supabase outcome) (user_embeddings_query ''u'') =
     Resolved (Some
       [(example_chunk ''1'' ''old'', \<lparr>d_id = ''old'', d_user_id = ''u'', d_created_at = 1\<rparr>),
        (example_chunk ''2'' ''old'', \<lparr>d_id = ''old'', d_user_id = ''u'', d_created_at = 1\<rparr>),
        (example_chunk ''3'' ''old'', \<lparr>d_id = ''old'', d_user_id = ''u'', d_created_at = 1\<rparr>),
        (example_chunk ''4'' ''old'', \<lparr>d_id = ''old'', d_user_id = ''u'', d_created_at = 1\<rparr>),
        (example_chunk ''5'' ''old'', \<lparr>d_id = ''old'', d_user_id = ''u'', d_created_at = 1\<rparr>)]) None"
  by (simp add: example_supabase_def pg_run_select_def example_user_rows)
     (simp add: user_embeddings_query_def in_order_def)

lemma example_recent_answer:
  "run_select (example_supabase outcome) (recent_embeddings_query ''u'' 10) =
     Resolved (Some
       [(example_chunk ''7'' ''new'', \<lparr>d_id = ''new'', d_user_id = ''u'', d_created_at = 2\<rparr>),
        (example_chunk ''1'' ''old'', \<lparr>d_id = ''old'', d_user_id = ''u'', d_created_at = 1\<rparr>),
        (example_chunk ''2'' ''old'', \<lparr>d_id = ''old'', d_user_id = ''u'', d_created_at = 1\<rparr>),
        (example_chunk ''3'' ''old'', \<lparr>d_id = ''old'', d_user_id = ''u'', d_created_at = 1\<rparr>),
        (example_chunk ''4'' ''old'', \<lparr>d_id = ''old'', d_user_id = ''u'', d_created_at = 1\<rparr>),
        (example_chunk ''5'' ''old'', \<lparr>d_id = ''old'', d_user_id = ''u'', d_created_at = 1\<rparr>),
        (example_chunk ''6'' ''old'', \<lparr>d_id = ''old'', d_user_id = ''u'', d_created_at = 1\<rparr>)]) None"
  by (simp add: example_supabase_def pg_run_select_def example_recent_rows example_user_rows)
     (simp add: recent_embeddings_query_def in_order_def)

lemma example_mock_similarity:
  "mock_similarity (example_chunk n doc, d) = example_hit n doc"
  by (simp add: mock_similarity_def example_chunk_def example_hit_def)

theorem rpc_error_fallback_witness:
  "honours_selects (example_supabase (Resolved None (Some example_failure))) \<and>
   honours_selects (example_supabase (Rejected example_failure)) \<and>
   searchSimilarDocuments (example_supabase (Resolved None (Some example_failure))) example_hf ''q'' ''u'' 10 None =
     Inr [example_hit ''1'' ''old'', example_hit ''2'' ''old'', example_hit ''3'' ''old'',
          example_hit ''4'' ''old'', example_hit ''5'' ''old''] \<and>
   searchSimilarDocuments (example_supabase (Rejected example_failure)) example_hf ''q'' ''u'' 10 None =
     Inr [example_hit ''7'' ''new'', example_hit ''1'' ''old'', example_hit ''2'' ''old'',
          example_hit ''3'' ''old'', example_hit ''4'' ''old'', example_hit ''5'' ''old'',
          example_hit ''6'' ''old'']"
proof -
  have r: "rpc_search_documents_hybrid (example_supabase outcome) params = outcome" for outcome params
    by (simp add: example_supabase_def)
  from rpc_error_fallback[OF example_supabase_honours [of "Resolved None (Some example_failure)"],
      where userId = "''u''"
        and checkError = None and hf = example_hf and query = "''q''" and limit = 10
        and keyword = None and data = None and error = example_failure]
  have 1: "searchSimilarDocuments (example_supabase (Resolved None (Some example_failure))) example_hf ''q'' ''u'' 10 None =
     Inr [example_hit ''1'' ''old'', example_hit ''2'' ''old'', example_hit ''3'' ''old'',
          example_hit ''4'' ''old'', example_hit ''5'' ''old'']"
    by (simp add: r example_check_answer example_mock_similarity)
  from rpc_error_fallback[OF example_supabase_honours [of "Rejected example_failure"],
      where userId = "''u''"
        and checkError = None and hf = example_hf and query = "''q''" and limit = 10
        and keyword = None and error = example_failure and fallbackError = None]
  have 2: "searchSimilarDocuments (example_supabase (Rejected example_failure)) example_hf ''q'' ''u'' 10 None =
     Inr [example_hit ''7'' ''new'', example_hit ''1'' ''old'', example_hit ''2'' ''old'',
          example_hit ''3'' ''old'', example_hit ''4'' ''old'', example_hit ''5'' ''old'',
          example_hit ''6'' ''old'']"
    by (simp add: r example_check_answer example_recent_answer example_mock_similarity)
  show ?thesis
    using 1 2 by (simp add: example_supabase_honours)
qed


section \<open>Hybrid search in the database: \<open>search_documents\<close>\<close>

text \<open>
  The SQL function with the keyword argument. Two operators belong to PostgreSQL and
  pgvector and are parameters: \<open>cosine_distance\<close> is \<open><=>\<close>, and \<open>ilike content pattern\<close> is
  \<open>content ilike pattern\<close>. The arguments are the record of the call; \<open>match_count\<close> is an
  \<open>int\<close>, and a negative \<open>limit\<close> is an error of the query. Where SQL leaves the order
  of rows open (a \<open>limit\<close> without \<open>order by\<close>, ties of an \<open>order by\<close>, the rows of a
  \<open>union\<close>) the model takes the order of the scan: sorting is stable, and \<open>union\<close> removes
  rows that are equal in every column.
\<close>

record postgres =
  cosine_distance :: "real list \<Rightarrow> real list \<Rightarrow> real"
  ilike :: "string \<Rightarrow> string \<Rightarrow> bool"

datatype sql_error = NegativeLimit

definition vector_search :: "postgres \<Rightarrow> database \<Rightarrow> rpc_params \<Rightarrow> SearchRow list" where
  "vector_search pg db params =
     map (\<lambda>(de, d).
            \<lparr>content = de_content de, metadata = de_metadata de,
             similarity = 1 - cosine_distance pg (the (de_embedding de)) (query_embedding params),
             id = de_id de, document_id = de_document_id de\<rparr>)
       (take (nat (match_count params))
          (sort_key (\<lambda>(de, d). cosine_distance pg (the (de_embedding de)) (query_embedding params))
             (filter (\<lambda>(de, d). d_user_id d = user_id params \<and>
                        (case de_embedding de of
                           None \<Rightarrow> False
                         | Some e \<Rightarrow> 1 - cosine_distance pg e (query_embedding params) > match_threshold params))
                (joined db))))"

definition keyword_search :: "postgres \<Rightarrow> database \<Rightarrow> rpc_params \<Rightarrow> SearchRow list" where
  "keyword_search pg db params =
     map (\<lambda>(de, d).
            \<lparr>content = de_content de, metadata = de_metadata de, similarity = 0.7,
             id = de_id de, document_id = de_document_id de\<rparr>)
       (take (nat (match_count params))
          (filter (\<lambda>(de, d). d_user_id d = user_id params \<and>
                     (case keyword_query params of
                        None \<Rightarrow> False
                      | Some k \<Rightarrow> k \<noteq> '''' \<and> ilike pg (de_content de) (''%'' @ k @ ''%'')))
             (joined db)))"

definition combined_results :: "postgres \<Rightarrow> database \<Rightarrow> rpc_params \<Rightarrow> SearchRow list" where
  "combined_results pg db params = remdups (vector_search pg db params @ keyword_search pg db params)"

definition search_documents :: "postgres \<Rightarrow> database \<Rightarrow> rpc_params \<Rightarrow> sql_error + SearchRow list" where
  "search_documents pg db params =
     (if match_count params < 0 then Inl NegativeLimit
      else Inr (take (nat (match_count params))
             (sort_key (\<lambda>r. - similarity r) (combined_results pg db params))))"

subsection \<open>C2: what the union keeps\<close>

lemma sorted_take_sort_key:
  "sorted (map f (take n (sort_key f xs)))"
  using sorted_sort_key[of f xs] by (simp add: take_map[symmetric] sorted_wrt_take)

lemma take_sorted_top:
  assumes "sorted (map f xs)" "x \<in> set (take n xs)" "y \<in> set (drop n xs)"
  shows "f x \<le> f y"
proof -
  from assms(2) obtain i where i: "i < n" "i < length xs" "xs ! i = x"
    by (auto simp: in_set_conv_nth)
  from assms(3) obtain j where "j < length (drop n xs)" "drop n xs ! j = y"
    unfolding in_set_conv_nth by blast
  then have j: "n + j < length xs" "xs ! (n + j) = y"
    by (simp_all add: less_diff_conv add.commute)
  have "map f xs ! i \<le> map f xs ! (n + j)"
    using assms(1) i j by (intro sorted_nth_mono) simp_all
  with i j show ?thesis by simp
qed

text \<open>
  C2, as the function computes it. For a non-negative \<open>match_count\<close> the result is the
  union of the vector set and the keyword set with duplicates removed by whole rows (all
  five columns, the similarity among them), sorted by similarity descending and cut to
  \<open>match_count\<close> rows: the rows are pairwise different, each comes from one of the two
  sets, a row that was cut has a similarity no higher than any row kept, and when the
  union fits into \<open>match_count\<close> every row of both sets is in the result. So a chunk of
  both sets occurs once only if its vector similarity is the keyword score 0.7 itself,
  and otherwise once with each score.
\<close>

theorem search_documents_union:
  assumes "0 \<le> match_count params"
  shows "\<exists>rows. search_documents pg db params = Inr rows \<and>
           sorted (map (\<lambda>r. - similarity r) rows) \<and>
           length rows \<le> nat (match_count params) \<and>
           distinct rows \<and>
           set rows \<subseteq> set (vector_search pg db params) \<union> set (keyword_search pg db params) \<and>
           (\<forall>r \<in> set rows. \<forall>r' \<in> set (vector_search pg db params) \<union> set (keyword_search pg db params).
              r' \<notin> set rows \<longrightarrow> similarity r' \<le> similarity r) \<and>
           (length (combined_results pg db params) \<le> nat (match_count params) \<longrightarrow>
              set rows = set (vector_search pg db params) \<union> set (keyword_search pg db params))"
proof -
  let ?n = "nat (match_count params)"
  let ?c = "combined_results pg db params"
  let ?s = "sort_key (\<lambda>r. - similarity r) ?c"
  let ?rows = "take ?n ?s"
  have res: "search_documents pg db params = Inr ?rows"
    using assms by (simp add: search_documents_def)
  have setc: "set ?c = set (vector_search pg db params) \<union> set (keyword_search pg db params)"
    by (simp add: combined_results_def)
  have dists: "distinct ?s" by (simp add: combined_results_def)
  have sets: "set ?s = set ?c" by simp
  have 1: "sorted (map (\<lambda>r. - similarity r) ?rows)" by (rule sorted_take_sort_key)
  have 2: "length ?rows \<le> ?n" by simp
  have 3: "distinct ?rows" using dists by (rule distinct_take)
  have 4: "set ?rows \<subseteq> set (vector_search pg db params) \<union> set (keyword_search pg db params)"
    using set_take_subset[of ?n ?s] sets setc by blast
  have 5: "similarity r' \<le> similarity r"
    if "r \<in> set ?rows" "r' \<in> set (vector_search pg db params) \<union> set (keyword_search pg db params)"
       "r' \<notin> set ?rows" for r r'
  proof -
    have "r' \<in> set ?s" using that(2) sets setc by simp
    then have "r' \<in> set (take ?n ?s) \<union> set (drop ?n ?s)"
      using set_append[of "take ?n ?s" "drop ?n ?s"] by simp
    then have "r' \<in> set (drop ?n ?s)" using that(3) by blast
    from take_sorted_top[OF sorted_sort_key[of "\<lambda>r. - similarity r" ?c] that(1) this]
    show ?thesis by simp
  qed
  have 6: "set ?rows = set (vector_search pg db params) \<union> set (keyword_search pg db params)"
    if "length ?c \<le> ?n"
    using that sets setc by simp
  from res 1 2 3 4 5 6 show ?thesis by blast
qed


text \<open>
  One user with two chunks and unit vectors as embeddings: the query is at cosine
  similarity 0.8 to the first chunk and 0.6 to the second, and the keyword matches the
  first chunk only. The distance is the cosine distance; the pattern matching is decided
  for the patterns \<open>%c%\<close> of a whole content \<open>c\<close>.
\<close>

definition example_pg :: postgres where
  "example_pg =
     \<lparr>cosine_distance =
        (\<lambda>a b. 1 - (\<Sum>(x, y)\<leftarrow>zip a b. x * y) / (sqrt (\<Sum>x\<leftarrow>a. x\<^sup>2) * sqrt (\<Sum>y\<leftarrow>b. y\<^sup>2))),
      ilike = (\<lambda>c pattern. pattern = ''%'' @ c @ ''%'')\<rparr>"

definition hybrid_db :: database where
  "hybrid_db =
     \<lparr>documents = [\<lparr>d_id = ''d1'', d_user_id = ''u'', d_created_at = 1\<rparr>],
      document_embeddings =
        [\<lparr>de_id = ''1'', de_document_id = ''d1'', de_content = ''hello'', de_metadata = [],
          de_embedding = Some [0.8, 0.6]\<rparr>,
         \<lparr>de_id = ''2'', de_document_id = ''d1'', de_content = ''bye'', de_metadata = [],
          de_embedding = Some [0.6, 0.8]\<rparr>]\<rparr>"

definition hybrid_params :: rpc_params where
  "hybrid_params =
     \<lparr>query_embedding = [1, 0], user_id = ''u'', match_threshold = 0, match_count = 10,
      keyword_query = Some ''hello''\<rparr>"

definition hybrid_hit :: "string \<Rightarrow> string \<Rightarrow> real \<Rightarrow> SearchRow" where
  "hybrid_hit n c s = \<lparr>content = c, metadata = [], similarity = s, id = n, document_id = ''d1''\<rparr>"

lemma hybrid_joined:
  "joined hybrid_db =
     [(\<lparr>de_id = ''1'', de_document_id = ''d1'', de_content = ''hello'', de_metadata = [],
          de_embedding = Some [0.8, 0.6]\<rparr>, \<lparr>d_id = ''d1'', d_user_id = ''u'', d_created_at = 1\<rparr>),
      (\<lparr>de_id = ''2'', de_document_id = ''d1'', de_content = ''bye'', de_metadata = [],
          de_embedding = Some [0.6, 0.8]\<rparr>, \<lparr>d_id = ''d1'', d_user_id = ''u'', d_created_at = 1\<rparr>)]"
  by (simp add: joined_def hybrid_db_def)

lemma hybrid_distances:
  "cosine_distance example_pg [4 / 5, 3 / 5] [1, 0] = 1 / 5"
  "cosine_distance example_pg [3 / 5, 4 / 5] [1, 0] = 2 / 5"
  by (simp_all add: example_pg_def power2_eq_square)

lemma hybrid_vector_search:
  "vector_search example_pg hybrid_db hybrid_params = [hybrid_hit ''1'' ''hello'' 0.8, hybrid_hit ''2'' ''bye'' 0.6]"
  by (simp add: vector_search_def hybrid_joined hybrid_params_def hybrid_hit_def hybrid_distances)

lemma hybrid_keyword_search:
  "keyword_search example_pg hybrid_db hybrid_params = [hybrid_hit ''1'' ''hello'' 0.7]"
  by (simp add: keyword_search_def hybrid_joined example_pg_def hybrid_params_def hybrid_hit_def)

lemma hybrid_combined:
  "combined_results example_pg hybrid_db hybrid_params =
     [hybrid_hit ''1'' ''hello'' 0.8, hybrid_hit ''2'' ''bye'' 0.6, hybrid_hit ''1'' ''hello'' 0.7]"
  by (simp add: combined_results_def hybrid_vector_search hybrid_keyword_search hybrid_hit_def)

text \<open>
  The first chunk is in both sets, with similarity 0.8 and 0.7: the result has it twice,
  not once with the higher score.
\<close>

theorem search_documents_duplicate_counterexample:
  "search_documents example_pg hybrid_db hybrid_params =
     Inr [hybrid_hit ''1'' ''hello'' 0.8, hybrid_hit ''1'' ''hello'' 0.7, hybrid_hit ''2'' ''bye'' 0.6] \<and>
   hybrid_hit ''1'' ''hello'' 0.8 \<in> set (vector_search example_pg hybrid_db hybrid_params) \<and>
   hybrid_hit ''1'' ''hello'' 0.7 \<in> set (keyword_search example_pg hybrid_db hybrid_params) \<and>
   id (hybrid_hit ''1'' ''hello'' 0.8) = id (hybrid_hit ''1'' ''hello'' 0.7)"
  by (simp add: search_documents_def hybrid_combined hybrid_vector_search hybrid_keyword_search)
    (simp add: hybrid_hit_def hybrid_params_def)

theorem search_documents_union_witness:
  "0 \<le> match_count hybrid_params \<and>
   (\<exists>rows. search_documents example_pg hybrid_db hybrid_params = Inr rows \<and>
      sorted (map (\<lambda>r. - similarity r) rows) \<and> length rows = 3 \<and> distinct rows \<and>
      set rows = {hybrid_hit ''1'' ''hello'' 0.8, hybrid_hit ''2'' ''bye'' 0.6, hybrid_hit ''1'' ''hello'' 0.7})"
proof -
  have h: "0 \<le> match_count hybrid_params" by (simp add: hybrid_params_def)
  have mc: "match_count hybrid_params = 10" by (simp add: hybrid_params_def)
  have l: "length (combined_results example_pg hybrid_db hybrid_params) \<le> nat (match_count hybrid_params)"
    by (simp add: hybrid_combined mc)
  from search_documents_union[OF h, of example_pg hybrid_db] l
  obtain rows where r: "search_documents example_pg hybrid_db hybrid_params = Inr rows"
    "sorted (map (\<lambda>r. - similarity r) rows)" "distinct rows"
    "set rows = set (vector_search example_pg hybrid_db hybrid_params) \<union>
                set (keyword_search example_pg hybrid_db hybrid_params)"
    by blast
  have s: "set rows = {hybrid_hit ''1'' ''hello'' 0.8, hybrid_hit ''2'' ''bye'' 0.6, hybrid_hit ''1'' ''hello'' 0.7}"
    using r(4) by (auto simp: hybrid_vector_search hybrid_keyword_search)
  have "card (set rows) = 3"
    unfolding s by (simp add: hybrid_hit_def)
  then have "length rows = 3" using r(3) by (simp add: distinct_card)
  with h r s show ?thesis by blast
qed


section \<open>Extraction dispatcher: \<open>extractTextFromFile\<close>\<close>

subsection \<open>String operations of the extractors\<close>

text \<open>
  \<open>s.split('\n\n')\<close>: the pieces between the occurrences of two newlines, found from the
  left without overlap; \<open>cur\<close> holds the piece being read, reversed.
\<close>

fun split_double_newline :: "string \<Rightarrow> string \<Rightarrow> string list" where
  "split_double_newline cur [] = [rev cur]"
| "split_double_newline cur [c] = [rev (c # cur)]"
| "split_double_newline cur (c # d # s) =
     (if c = CHR 0x0A \<and> d = CHR 0x0A then rev cur # split_double_newline [] s
      else split_double_newline (c # cur) (d # s))"

text \<open>
  \<open>s.split(/\n\s*\n/)\<close>: a separator starts at a newline that is followed, within the
  white space after it, by another newline, and it ends at the last newline of that
  white space (\<open>\s*\<close> is greedy). \<open>last_newline w\<close> is the length of \<open>w\<close> up to and including
  its last newline, 0 when it has none.
\<close>

definition last_newline :: "string \<Rightarrow> nat" where
  "last_newline w = length (dropWhile (\<lambda>c. c \<noteq> CHR 0x0A) (rev w))"

function split_blank_lines :: "string \<Rightarrow> string \<Rightarrow> string list" where
  "split_blank_lines cur [] = [rev cur]"
| "split_blank_lines cur (c # s) =
     (let k = last_newline (takeWhile js_whitespace s)
      in if c = CHR 0x0A \<and> 0 < k then rev cur # split_blank_lines [] (drop k s)
         else split_blank_lines (c # cur) s)"
  by pat_completeness auto
termination
  by (relation "measure (\<lambda>(cur, s). length s)") auto


text \<open>A string is blank when \<open>trim\<close> leaves nothing of it.\<close>

definition blank :: "string \<Rightarrow> bool" where
  "blank s \<longleftrightarrow> js_trim s = []"

lemma blank_iff: "blank s \<longleftrightarrow> (\<forall>c \<in> set s. js_whitespace c)"
proof
  assume "blank s"
  then have "dropWhile js_whitespace (rev (dropWhile js_whitespace s)) = []"
    by (simp add: blank_def js_trim_def)
  then have "\<forall>c \<in> set (dropWhile js_whitespace s). js_whitespace c"
    by simp
  then have "dropWhile js_whitespace s = []"
    using hd_dropWhile[of js_whitespace s] hd_in_set[of "dropWhile js_whitespace s"] by blast
  then show "\<forall>c \<in> set s. js_whitespace c"
    by simp
next
  assume "\<forall>c \<in> set s. js_whitespace c"
  then show "blank s" by (auto simp: blank_def js_trim_def dest: set_dropWhileD)
qed

lemma split_double_newline_keeps:
  "x \<in> set cur \<union> set s \<Longrightarrow> \<not> js_whitespace x \<Longrightarrow>
   \<exists>p \<in> set (split_double_newline cur s). x \<in> set p"
proof (induction cur s rule: split_double_newline.induct)
  case (3 cur c d s)
  have nl: "js_whitespace (CHR 0x0A)" by (simp add: js_whitespace_def)
  show ?case
  proof (cases "c = CHR 0x0A \<and> d = CHR 0x0A")
    case True
    with "3.prems" nl have "x \<in> set cur \<or> x \<in> set s" by auto
    then show ?thesis
    proof
      assume "x \<in> set cur" with True show ?thesis by simp
    next
      assume "x \<in> set s"
      with "3.IH"(1)[OF True] "3.prems"(2) True show ?thesis by auto
    qed
  next
    case False
    with "3.IH"(2)[OF False] "3.prems" show ?thesis by auto
  qed
qed auto

lemma split_blank_lines_keeps:
  "x \<in> set cur \<union> set s \<Longrightarrow> \<not> js_whitespace x \<Longrightarrow>
   \<exists>p \<in> set (split_blank_lines cur s). x \<in> set p"
proof (induction cur s rule: split_blank_lines.induct)
  case (1 cur)
  then show ?case by simp
next
  case (2 cur c s)
  let ?k = "last_newline (takeWhile js_whitespace s)"
  have nl: "js_whitespace (CHR 0x0A)" by (simp add: js_whitespace_def)
  show ?case
  proof (cases "c = CHR 0x0A \<and> 0 < ?k")
    case True
    have k: "?k \<le> length (takeWhile js_whitespace s)"
      using length_dropWhile_le[of "\<lambda>c. c \<noteq> CHR 0x0A" "rev (takeWhile js_whitespace s)"]
      by (simp add: last_newline_def)
    have "x \<in> set cur \<or> x \<in> set s" using "2.prems" True nl by auto
    then show ?thesis
    proof
      assume "x \<in> set cur" with True show ?thesis by (simp add: Let_def)
    next
      assume xs: "x \<in> set s"
      have "take ?k s = take ?k (take (length (takeWhile js_whitespace s)) s)"
        using k by (simp add: min_def)
      also have "\<dots> = take ?k (takeWhile js_whitespace s)"
        by (simp add: takeWhile_eq_take[symmetric])
      finally have "set (take ?k s) \<subseteq> set (takeWhile js_whitespace s)"
        by (simp add: set_take_subset)
      then have "x \<notin> set (take ?k s)"
        using "2.prems"(2) set_takeWhileD[of x js_whitespace s] by blast
      moreover have "set s = set (take ?k s) \<union> set (drop ?k s)"
        using set_append[of "take ?k s" "drop ?k s"] by simp
      ultimately have "x \<in> set (drop ?k s)"
        using xs by blast
      with "2.IH"(1)[OF refl True] "2.prems"(2) True show ?thesis by (auto simp: Let_def)
    qed
  next
    case False
    with "2.IH"(2)[OF refl False] "2.prems" show ?thesis by (auto simp: Let_def)
  qed
qed


text \<open>
  The three replacements of the HTML extractor. \<open>element_match tag s\<close> is the length of
  the match of \<open>/<tag[^>]*>[\s\S]*?<\/tag>/i\<close> at the start of \<open>s\<close>, if there is one: the
  attributes run to the first \<open>>\<close>, the content to the first closing tag.
\<close>

definition lower_ascii :: "char \<Rightarrow> char" where
  "lower_ascii c =
     (if 65 \<le> (of_char c :: nat) \<and> (of_char c :: nat) \<le> 90 then char_of ((of_char c :: nat) + 32) else c)"

definition ci_prefix :: "string \<Rightarrow> string \<Rightarrow> bool" where
  "ci_prefix p s \<longleftrightarrow> length p \<le> length s \<and> map lower_ascii (take (length p) s) = map lower_ascii p"

fun find_ci :: "string \<Rightarrow> string \<Rightarrow> nat option" where
  "find_ci p [] = (if p = [] then Some 0 else None)"
| "find_ci p (c # s) = (if ci_prefix p (c # s) then Some 0 else map_option Suc (find_ci p s))"

definition element_match :: "string \<Rightarrow> string \<Rightarrow> nat option" where
  "element_match tag s =
     (if ci_prefix (''<'' @ tag) s then
        (let after_name = drop (length tag + 1) s;
             attrs = takeWhile (\<lambda>c. c \<noteq> CHR ''>'') after_name
         in if length attrs < length after_name then
              (case find_ci (''</'' @ tag @ ''>'') (drop (length attrs + 1) after_name) of
                 None \<Rightarrow> None
               | Some i \<Rightarrow> Some (length tag + 1 + length attrs + 1 + i + length tag + 3))
            else None)
      else None)"

function remove_elements :: "string \<Rightarrow> string \<Rightarrow> string" where
  "remove_elements tag [] = []"
| "remove_elements tag (c # s) =
     (case element_match tag (c # s) of
        Some n \<Rightarrow> remove_elements tag (drop (n - 1) s)
      | None \<Rightarrow> c # remove_elements tag s)"
  by pat_completeness auto
termination
  by (relation "measure (\<lambda>(tag, s). length s)") auto

text \<open>\<open>replace(/<[^>]*>/g, ' ')\<close> and \<open>replace(/\s+/g, ' ')\<close>.\<close>

function strip_tags :: "string \<Rightarrow> string" where
  "strip_tags [] = []"
| "strip_tags (c # s) =
     (let inside = takeWhile (\<lambda>c. c \<noteq> CHR ''>'') s
      in if c = CHR ''<'' \<and> length inside < length s
         then CHR '' '' # strip_tags (drop (length inside + 1) s)
         else c # strip_tags s)"
  by pat_completeness auto
termination
  by (relation "measure length") auto

function collapse_whitespace :: "string \<Rightarrow> string" where
  "collapse_whitespace [] = []"
| "collapse_whitespace (c # s) =
     (if js_whitespace c then CHR '' '' # collapse_whitespace (dropWhile js_whitespace s)
      else c # collapse_whitespace s)"
  by pat_completeness auto
termination
  by (relation "measure length") (auto simp: less_Suc_eq_le length_dropWhile_le)



subsection \<open>The outside of the extractors\<close>

text \<open>
  What a \<open>catch\<close> receives is any value: an instance of \<open>Error\<close>, or something else (a
  string, a plain object). The two \<open>catch\<close> blocks of the extractors read it with
  \<open>error instanceof Error ? error.message : 'Unknown error'\<close>.
\<close>

datatype thrown = Error_instance js_error | Other_value

fun message_or_unknown :: "thrown \<Rightarrow> string" where
  "message_or_unknown (Error_instance error) = error_message error"
| "message_or_unknown Other_value = ''Unknown error''"

fun try_catch_thrown :: "thrown + 'a \<Rightarrow> (thrown \<Rightarrow> thrown + 'a) \<Rightarrow> thrown + 'a" where
  "try_catch_thrown (Inr v) handler = Inr v"
| "try_catch_thrown (Inl error) handler = handler error"

text \<open>
  \<open>fetch\<close> rejects or resolves to a response (\<open>body\<close> is what \<open>arrayBuffer()\<close> and \<open>text()\<close>
  give). The parsers of the libraries throw or return: mammoth the raw text, csv-parse
  the records as lists of column and value, XLSX the sheets by name with their rows of
  cells as \<open>sheet_to_json\<close> with \<open>header: 1\<close> gives them (a cell as \<open>join\<close> prints it), and
  \<open>JSON.parse\<close> with the reading of \<open>notebook.cells\<close> the cells of a notebook.
\<close>

record response =
  ok :: bool
  statusText :: string
  body :: string

datatype cell_source = NoSource | SourceText string | SourceLines "string list"

record notebook_cell =
  source :: cell_source
  cell_type :: string

record extraction_io =
  fetch :: "string \<Rightarrow> thrown + response"
  mammoth_extractRawText :: "string \<Rightarrow> thrown + string"
  csv_parse :: "string \<Rightarrow> thrown + (string \<times> string) list list"
  XLSX_read :: "string \<Rightarrow> thrown + (string \<times> string list list) list"
  notebook_cells :: "string \<Rightarrow> thrown + notebook_cell list"

definition new_Error :: "string \<Rightarrow> js_error" where
  "new_Error m = \<lparr>error_message = m, status = None, httpResponse_status = None\<rparr>"

definition fetchFileContent :: "extraction_io \<Rightarrow> string \<Rightarrow> thrown + response" where
  "fetchFileContent io fileUrl =
     (case fetch io fileUrl of
        Inl error \<Rightarrow> Inl error
      | Inr response \<Rightarrow>
          if \<not> ok response
          then Inl (Error_instance (new_Error (''Failed to fetch file: '' @ statusText response)))
          else Inr response)"

subsection \<open>The extractors\<close>

definition extractTextFromPDF :: "extraction_io \<Rightarrow> string \<Rightarrow> string \<Rightarrow> thrown + DocumentChunk list" where
  "extractTextFromPDF io fileUrl fileName =
     try_catch_thrown
       (case fetchFileContent io fileUrl of
          Inl error \<Rightarrow> Inl error
        | Inr response \<Rightarrow>
            (case mammoth_extractRawText io (body response) of
               Inl error \<Rightarrow> Inl error
             | Inr text \<Rightarrow>
                 if js_trim text = [] then
                   Inr [\<lparr>content = ''PDF file: '' @ fileName @
                           '' (No text content found - might be image-based PDF or scanned document)'',
                         metadata = [(''type'', MStr ''pdf''), (''section'', MStr ''Document''),
                                     (''filename'', MStr fileName)]\<rparr>]
                 else
                   (let chunks = filter (\<lambda>chunk. js_trim chunk \<noteq> []) (split_blank_lines [] text)
                    in if length chunks = 0 then
                         Inr [\<lparr>content = text,
                               metadata = [(''type'', MStr ''pdf''), (''section'', MStr ''Document''),
                                           (''filename'', MStr fileName)]\<rparr>]
                       else
                         Inr (map (\<lambda>(index, chunk).
                                \<lparr>content = js_trim chunk,
                                 metadata = [(''type'', MStr ''pdf''),
                                             (''section'', MStr (''Section '' @ number_to_string (index + 1))),
                                             (''filename'', MStr fileName),
                                             (''chunkIndex'', MNum (int index))]\<rparr>)
                              (enumerate 0 chunks)))))
       (\<lambda>error.
          Inr [\<lparr>content = ''PDF file: '' @ fileName @
                  '' - Content extraction failed. This might be a scanned PDF that requires OCR (Optical Character Recognition) to extract text. Error: ''
                  @ message_or_unknown error,
                metadata = [(''type'', MStr ''pdf''), (''section'', MStr ''Document''),
                            (''error'', MStr (message_or_unknown error)), (''filename'', MStr fileName),
                            (''processingStatus'', MStr ''failed'')]\<rparr>])"

definition paragraph_chunks :: "string \<Rightarrow> string \<Rightarrow> string \<Rightarrow> string list \<Rightarrow> DocumentChunk list" where
  "paragraph_chunks type label fileName paragraphs =
     map (\<lambda>(index, paragraph).
            \<lparr>content = paragraph,
             metadata = [(''type'', MStr type),
                         (''section'', MStr (label @ '' '' @ number_to_string (index + 1))),
                         (''filename'', MStr fileName)]\<rparr>)
       (enumerate 0 paragraphs)"

definition extractTextFromDOCX :: "extraction_io \<Rightarrow> string \<Rightarrow> string \<Rightarrow> thrown + DocumentChunk list" where
  "extractTextFromDOCX io fileUrl fileName =
     (case fetchFileContent io fileUrl of
        Inl error \<Rightarrow> Inl error
      | Inr response \<Rightarrow>
          (case mammoth_extractRawText io (body response) of
             Inl error \<Rightarrow> Inl error
           | Inr text \<Rightarrow>
               (let paragraphs = filter (\<lambda>p. js_trim p \<noteq> []) (split_double_newline [] text)
                in Inr (paragraph_chunks ''docx'' ''Paragraph'' fileName paragraphs))))"

definition html_text_content :: "string \<Rightarrow> string" where
  "html_text_content text =
     js_trim (collapse_whitespace (strip_tags
       (remove_elements ''style'' (remove_elements ''script'' text))))"

definition extractTextFromHTML :: "extraction_io \<Rightarrow> string \<Rightarrow> string \<Rightarrow> thrown + DocumentChunk list" where
  "extractTextFromHTML io fileUrl fileName =
     (case fetchFileContent io fileUrl of
        Inl error \<Rightarrow> Inl error
      | Inr response \<Rightarrow>
          (let text = body response;
               textContent = html_text_content text;
               paragraphs = filter (\<lambda>p. js_trim p \<noteq> []) (split_blank_lines [] textContent)
           in Inr (paragraph_chunks ''html'' ''Section'' fileName paragraphs)))"

definition extractTextFromCSV :: "extraction_io \<Rightarrow> string \<Rightarrow> string \<Rightarrow> thrown + DocumentChunk list" where
  "extractTextFromCSV io fileUrl fileName =
     (case fetchFileContent io fileUrl of
        Inl error \<Rightarrow> Inl error
      | Inr response \<Rightarrow>
          (case csv_parse io (body response) of
             Inl err \<Rightarrow> Inl err
           | Inr records \<Rightarrow>
               Inr (map (\<lambda>(index, record).
                      \<lparr>content = js_join '', '' (map (\<lambda>(key, v). key @ '': '' @ v) record),
                       metadata = [(''type'', MStr ''csv''),
                                   (''section'', MStr (''Row '' @ number_to_string (index + 1))),
                                   (''row'', MNum (int index + 1)),
                                   (''filename'', MStr fileName)]\<rparr>)
                    (enumerate 0 records))))"

definition sheet_chunks :: "string \<Rightarrow> string \<times> string list list \<Rightarrow> DocumentChunk list" where
  "sheet_chunks fileName = (\<lambda>(sheetName, jsonData).
     map (\<lambda>(index, row).
            \<lparr>content = js_join '', '' row,
             metadata = [(''type'', MStr ''xlsx''),
                         (''section'', MStr (sheetName @ '' Row '' @ number_to_string (index + 1))),
                         (''sheet'', MStr sheetName),
                         (''row'', MNum (int index + 1)),
                         (''filename'', MStr fileName)]\<rparr>)
       (filter (\<lambda>(index, row). length row > 0) (enumerate 0 jsonData)))"

definition extractTextFromXLSX :: "extraction_io \<Rightarrow> string \<Rightarrow> string \<Rightarrow> thrown + DocumentChunk list" where
  "extractTextFromXLSX io fileUrl fileName =
     (case fetchFileContent io fileUrl of
        Inl error \<Rightarrow> Inl error
      | Inr response \<Rightarrow>
          (case XLSX_read io (body response) of
             Inl error \<Rightarrow> Inl error
           | Inr workbook \<Rightarrow> Inr (concat (map (sheet_chunks fileName) workbook))))"

definition extractTextFromPPTX :: "extraction_io \<Rightarrow> string \<Rightarrow> string \<Rightarrow> thrown + DocumentChunk list" where
  "extractTextFromPPTX io fileUrl fileName =
     Inr [\<lparr>content = ''PowerPoint presentation: '' @ fileName,
           metadata = [(''type'', MStr ''pptx''), (''section'', MStr ''Presentation''),
                       (''filename'', MStr fileName)]\<rparr>]"

definition has_source :: "notebook_cell \<Rightarrow> bool" where
  "has_source cell =
     (case source cell of
        NoSource \<Rightarrow> False
      | SourceText t \<Rightarrow> length t > 0
      | SourceLines ls \<Rightarrow> length ls > 0)"

definition extractTextFromNotebook :: "extraction_io \<Rightarrow> string \<Rightarrow> string \<Rightarrow> thrown + DocumentChunk list" where
  "extractTextFromNotebook io fileUrl fileName =
     (case fetchFileContent io fileUrl of
        Inl error \<Rightarrow> Inl error
      | Inr response \<Rightarrow>
          (case notebook_cells io (body response) of
             Inl error \<Rightarrow> Inl error
           | Inr cells \<Rightarrow>
               Inr (map (\<lambda>(index, cell).
                      \<lparr>content = (case source cell of
                                    SourceLines ls \<Rightarrow> js_join [] ls
                                  | SourceText t \<Rightarrow> t
                                  | NoSource \<Rightarrow> []),
                       metadata = [(''type'', MStr ''notebook''),
                                   (''section'', MStr (''Cell '' @ number_to_string (index + 1))),
                                   (''cellType'', MStr (cell_type cell)),
                                   (''cell'', MNum (int index + 1)),
                                   (''filename'', MStr fileName)]\<rparr>)
                    (filter (\<lambda>(index, cell). has_source cell) (enumerate 0 cells)))))"

definition extractTextFromImage :: "extraction_io \<Rightarrow> string \<Rightarrow> string \<Rightarrow> thrown + DocumentChunk list" where
  "extractTextFromImage io fileUrl fileName =
     Inr [\<lparr>content = ''Image file: '' @ fileName,
           metadata = [(''type'', MStr ''image''), (''section'', MStr ''Image Content''),
                       (''filename'', MStr fileName)]\<rparr>]"

definition extractTextFromPlainText :: "extraction_io \<Rightarrow> string \<Rightarrow> string \<Rightarrow> thrown + DocumentChunk list" where
  "extractTextFromPlainText io fileUrl fileName =
     (case fetchFileContent io fileUrl of
        Inl error \<Rightarrow> Inl error
      | Inr response \<Rightarrow>
          (let text = body response;
               paragraphs = filter (\<lambda>p. js_trim p \<noteq> []) (split_double_newline [] text)
           in Inr (paragraph_chunks ''text'' ''Paragraph'' fileName paragraphs)))"

subsection \<open>The dispatcher\<close>

text \<open>\<open>fileUrl.split('/').pop() || 'document'\<close>.\<close>

definition file_name :: "string \<Rightarrow> string" where
  "file_name fileUrl =
     (let last_segment = rev (takeWhile (\<lambda>c. c \<noteq> CHR ''/'') (rev fileUrl))
      in if last_segment = [] then ''document'' else last_segment)"

definition extract_by_type :: "extraction_io \<Rightarrow> string \<Rightarrow> string \<Rightarrow> string \<Rightarrow> thrown + DocumentChunk list" where
  "extract_by_type io fileUrl fileName fileType =
     (if fileType = ''application/pdf'' then extractTextFromPDF io fileUrl fileName
      else if fileType = ''application/vnd.openxmlformats-officedocument.wordprocessingml.document''
        then extractTextFromDOCX io fileUrl fileName
      else if fileType = ''text/html'' then extractTextFromHTML io fileUrl fileName
      else if fileType = ''text/csv'' then extractTextFromCSV io fileUrl fileName
      else if fileType = ''application/vnd.openxmlformats-officedocument.spreadsheetml.sheet''
        then extractTextFromXLSX io fileUrl fileName
      else if fileType = ''application/vnd.openxmlformats-officedocument.presentationml.presentation''
        then extractTextFromPPTX io fileUrl fileName
      else if fileType = ''application/x-ipynb+json'' then extractTextFromNotebook io fileUrl fileName
      else if fileType = ''image/jpeg'' \<or> fileType = ''image/png''
        then extractTextFromImage io fileUrl fileName
      else extractTextFromPlainText io fileUrl fileName)"

definition extractTextFromFile :: "extraction_io \<Rightarrow> string \<Rightarrow> string \<Rightarrow> thrown + DocumentChunk list" where
  "extractTextFromFile io fileUrl fileType =
     (let fileName = file_name fileUrl
      in try_catch_thrown (extract_by_type io fileUrl fileName fileType)
           (\<lambda>error. Inl (Error_instance
              (new_Error (''Failed to extract text from '' @ fileName @ '': '' @
                          message_or_unknown error)))))"


subsection \<open>What each branch returns\<close>

lemma extractTextFromFile_cases:
  "extractTextFromFile io fileUrl fileType =
     (case extract_by_type io fileUrl (file_name fileUrl) fileType of
        Inl error \<Rightarrow>
          Inl (Error_instance (new_Error (''Failed to extract text from '' @ file_name fileUrl @ '': '' @
                                          message_or_unknown error)))
      | Inr chunks \<Rightarrow> Inr chunks)"
  by (simp add: extractTextFromFile_def Let_def split: sum.splits)

lemma not_blank_pieces:
  assumes "\<not> blank t"
  shows "filter (\<lambda>p. js_trim p \<noteq> []) (split_double_newline [] t) \<noteq> []"
    and "filter (\<lambda>p. js_trim p \<noteq> []) (split_blank_lines [] t) \<noteq> []"
proof -
  from assms obtain x where x: "x \<in> set t" "\<not> js_whitespace x"
    by (auto simp: blank_iff)
  from split_double_newline_keeps[of x "[]" t] x
  obtain p where p: "p \<in> set (split_double_newline [] t)" "x \<in> set p" by auto
  then have "\<not> blank p" using x(2) by (auto simp: blank_iff)
  with p(1) show "filter (\<lambda>p. js_trim p \<noteq> []) (split_double_newline [] t) \<noteq> []"
    by (auto simp: blank_def filter_empty_conv)
  from split_blank_lines_keeps[of x "[]" t] x
  obtain q where q: "q \<in> set (split_blank_lines [] t)" "x \<in> set q" by auto
  then have "\<not> blank q" using x(2) by (auto simp: blank_iff)
  with q(1) show "filter (\<lambda>p. js_trim p \<noteq> []) (split_blank_lines [] t) \<noteq> []"
    by (auto simp: blank_def filter_empty_conv)
qed

lemma paragraph_chunks_length [simp]:
  "length (paragraph_chunks type label fileName paragraphs) = length paragraphs"
  by (simp add: paragraph_chunks_def)

lemma enumerate_eq_Nil [simp]: "enumerate n xs = [] \<longleftrightarrow> xs = []"
  by (cases xs) simp_all

lemma filter_enumerate_nonempty:
  assumes "x \<in> set xs" and "P x"
  shows "filter (\<lambda>(index, y). P y) (enumerate n xs) \<noteq> []"
proof -
  from assms(1) have "x \<in> snd ` set (enumerate n xs)"
    by (simp flip: set_map)
  then obtain index where "(index, x) \<in> set (enumerate n xs)" by auto
  with assms(2) show ?thesis by (auto simp: filter_empty_conv)
qed

lemma extractTextFromPDF_total:
  "\<exists>chunks. extractTextFromPDF io fileUrl fileName = Inr chunks \<and> chunks \<noteq> []"
  by (auto simp: extractTextFromPDF_def Let_def split: sum.splits)

definition failed_pdf_chunk :: "string \<Rightarrow> thrown \<Rightarrow> DocumentChunk" where
  "failed_pdf_chunk fileName error =
     \<lparr>content = ''PDF file: '' @ fileName @
        '' - Content extraction failed. This might be a scanned PDF that requires OCR (Optical Character Recognition) to extract text. Error: ''
        @ message_or_unknown error,
      metadata = [(''type'', MStr ''pdf''), (''section'', MStr ''Document''),
                  (''error'', MStr (message_or_unknown error)), (''filename'', MStr fileName),
                  (''processingStatus'', MStr ''failed'')]\<rparr>"

lemma extractTextFromPDF_failed:
  assumes "fetchFileContent io fileUrl = Inl e \<or>
           (\<exists>response. fetchFileContent io fileUrl = Inr response \<and>
              mammoth_extractRawText io (body response) = Inl e)"
  shows "extractTextFromPDF io fileUrl fileName = Inr [failed_pdf_chunk fileName e]"
  using assms by (auto simp: extractTextFromPDF_def failed_pdf_chunk_def)

lemma failed_pdf_chunk_status:
  "map_of (metadata (failed_pdf_chunk fileName e)) ''processingStatus'' = Some (MStr ''failed'')"
  "map_of (metadata (failed_pdf_chunk fileName e)) ''error'' = Some (MStr (message_or_unknown e))"
  by (simp_all add: failed_pdf_chunk_def)

lemma extractTextFromDOCX_cases:
  "extractTextFromDOCX io fileUrl fileName =
     (case fetchFileContent io fileUrl of
        Inl error \<Rightarrow> Inl error
      | Inr response \<Rightarrow>
          (case mammoth_extractRawText io (body response) of
             Inl error \<Rightarrow> Inl error
           | Inr text \<Rightarrow>
               Inr (paragraph_chunks ''docx'' ''Paragraph'' fileName
                      (filter (\<lambda>p. js_trim p \<noteq> []) (split_double_newline [] text)))))"
  by (simp add: extractTextFromDOCX_def Let_def split: sum.splits)

lemma fetch_first:
  assumes "fetchFileContent io fileUrl = Inl e"
    and "fileType \<notin> {''application/pdf'',
           ''application/vnd.openxmlformats-officedocument.presentationml.presentation'',
           ''image/jpeg'', ''image/png''}"
  shows "extract_by_type io fileUrl fileName fileType = Inl e"
  using assms
  by (simp add: extract_by_type_def extractTextFromDOCX_def extractTextFromHTML_def
      extractTextFromCSV_def extractTextFromXLSX_def extractTextFromNotebook_def
      extractTextFromPlainText_def)

lemma extractTextFromHTML_nonempty:
  assumes "fetchFileContent io fileUrl = Inr response"
    and "\<not> blank (html_text_content (body response))"
  shows "\<exists>chunks. extractTextFromHTML io fileUrl fileName = Inr chunks \<and> chunks \<noteq> []"
  using assms not_blank_pieces(2)[of "html_text_content (body response)"]
  by (simp add: extractTextFromHTML_def Let_def paragraph_chunks_def)

lemma extractTextFromCSV_nonempty:
  assumes "fetchFileContent io fileUrl = Inr response"
    and "csv_parse io (body response) = Inr records"
    and "records \<noteq> []"
  shows "\<exists>chunks. extractTextFromCSV io fileUrl fileName = Inr chunks \<and> chunks \<noteq> []"
  using assms by (simp add: extractTextFromCSV_def)

lemma sheet_chunks_nonempty:
  assumes "row \<in> set jsonData" and "row \<noteq> []"
  shows "sheet_chunks fileName (sheetName, jsonData) \<noteq> []"
  using filter_enumerate_nonempty[of row jsonData "\<lambda>row. length row > 0" 0] assms
  by (simp add: sheet_chunks_def)

lemma extractTextFromXLSX_nonempty:
  assumes "fetchFileContent io fileUrl = Inr response"
    and "XLSX_read io (body response) = Inr workbook"
    and "\<exists>sheet \<in> set workbook. \<exists>row \<in> set (snd sheet). row \<noteq> []"
  shows "\<exists>chunks. extractTextFromXLSX io fileUrl fileName = Inr chunks \<and> chunks \<noteq> []"
proof -
  from assms(3) obtain sheetName jsonData row
    where s: "(sheetName, jsonData) \<in> set workbook" "row \<in> set jsonData" "row \<noteq> []"
    by auto
  from sheet_chunks_nonempty[OF s(2,3)] s(1)
  have "\<exists>sheet \<in> set workbook. sheet_chunks fileName sheet \<noteq> []" by blast
  then have "concat (map (sheet_chunks fileName) workbook) \<noteq> []"
    by simp
  with assms(1,2) show ?thesis by (simp add: extractTextFromXLSX_def)
qed

lemma extractTextFromNotebook_nonempty:
  assumes "fetchFileContent io fileUrl = Inr response"
    and "notebook_cells io (body response) = Inr cells"
    and "\<exists>cell \<in> set cells. has_source cell"
  shows "\<exists>chunks. extractTextFromNotebook io fileUrl fileName = Inr chunks \<and> chunks \<noteq> []"
proof -
  from assms(3) obtain cell where "cell \<in> set cells" "has_source cell" by auto
  then have "filter (\<lambda>(index, cell). has_source cell) (enumerate 0 cells) \<noteq> []"
    by (rule filter_enumerate_nonempty[of cell cells has_source 0])
  then show ?thesis using assms(1,2) by (simp add: extractTextFromNotebook_def)
qed


subsection \<open>C1: which extractors are total\<close>

text \<open>
  C1, as the dispatcher behaves. For every type an input with content gives at least
  one chunk: always for a PDF, a presentation or an image, and for the other types when
  the text of a DOCX or plain-text file, or the text content of an HTML page, has a
  non-blank character, when a CSV file has a record, when a sheet of a workbook has a
  non-empty row, when a cell of a notebook has a source. A failure becomes a diagnostic
  chunk for a PDF only: when the file cannot be fetched or parsed the result is exactly
  one chunk whose metadata has \<open>processingStatus\<close> \<open>failed\<close> and, under \<open>error\<close>, the
  message of the error, \<open>Unknown error\<close> when the value thrown is not an \<open>Error\<close>. For
  every other type the dispatcher raises an \<open>Error\<close> with the message
  \<open>Failed to extract text from\<close>, the file name and that same message, when the fetch
  fails and when the parser of a DOCX, CSV, XLSX or notebook file throws.
\<close>

theorem extraction_outcomes:
  "(\<exists>chunks. extractTextFromFile io fileUrl ''application/pdf'' = Inr chunks \<and> chunks \<noteq> []) \<and>
   (fetchFileContent io fileUrl = Inl e \<or>
    (\<exists>response. fetchFileContent io fileUrl = Inr response \<and>
       mammoth_extractRawText io (body response) = Inl e) \<longrightarrow>
      (\<exists>c. extractTextFromFile io fileUrl ''application/pdf'' = Inr [c] \<and>
           map_of (metadata c) ''processingStatus'' = Some (MStr ''failed'') \<and>
           map_of (metadata c) ''error'' = Some (MStr (message_or_unknown e)))) \<and>
   (fileType \<in> {''application/vnd.openxmlformats-officedocument.presentationml.presentation'',
                 ''image/jpeg'', ''image/png''} \<longrightarrow>
      (\<exists>c. extractTextFromFile io fileUrl fileType = Inr [c])) \<and>
   (fileType \<notin> {''application/pdf'',
                 ''application/vnd.openxmlformats-officedocument.presentationml.presentation'',
                 ''image/jpeg'', ''image/png''} \<and>
    fetchFileContent io fileUrl = Inl e \<longrightarrow>
      extractTextFromFile io fileUrl fileType =
        Inl (Error_instance (new_Error (''Failed to extract text from '' @ file_name fileUrl @ '': '' @
                                        message_or_unknown e)))) \<and>
   (fetchFileContent io fileUrl = Inr response \<and> mammoth_extractRawText io (body response) = Inl e \<longrightarrow>
      extractTextFromFile io fileUrl
          ''application/vnd.openxmlformats-officedocument.wordprocessingml.document'' =
        Inl (Error_instance (new_Error (''Failed to extract text from '' @ file_name fileUrl @ '': '' @
                                        message_or_unknown e)))) \<and>
   (fetchFileContent io fileUrl = Inr response \<and> mammoth_extractRawText io (body response) = Inr t \<and>
    \<not> blank t \<longrightarrow>
      (\<exists>chunks. extractTextFromFile io fileUrl
          ''application/vnd.openxmlformats-officedocument.wordprocessingml.document'' = Inr chunks \<and>
         chunks \<noteq> [])) \<and>
   (fetchFileContent io fileUrl = Inr response \<and> \<not> blank (body response) \<longrightarrow>
      (\<exists>chunks. extractTextFromFile io fileUrl ''text/plain'' = Inr chunks \<and> chunks \<noteq> [])) \<and>
   (fetchFileContent io fileUrl = Inr response \<and> csv_parse io (body response) = Inl e \<longrightarrow>
      extractTextFromFile io fileUrl ''text/csv'' =
        Inl (Error_instance (new_Error (''Failed to extract text from '' @ file_name fileUrl @ '': '' @
                                        message_or_unknown e)))) \<and>
   (fetchFileContent io fileUrl = Inr response \<and> XLSX_read io (body response) = Inl e \<longrightarrow>
      extractTextFromFile io fileUrl
          ''application/vnd.openxmlformats-officedocument.spreadsheetml.sheet'' =
        Inl (Error_instance (new_Error (''Failed to extract text from '' @ file_name fileUrl @ '': '' @
                                        message_or_unknown e)))) \<and>
   (fetchFileContent io fileUrl = Inr response \<and> notebook_cells io (body response) = Inl e \<longrightarrow>
      extractTextFromFile io fileUrl ''application/x-ipynb+json'' =
        Inl (Error_instance (new_Error (''Failed to extract text from '' @ file_name fileUrl @ '': '' @
                                        message_or_unknown e)))) \<and>
   (fetchFileContent io fileUrl = Inr response \<and> \<not> blank (html_text_content (body response)) \<longrightarrow>
      (\<exists>chunks. extractTextFromFile io fileUrl ''text/html'' = Inr chunks \<and> chunks \<noteq> [])) \<and>
   (fetchFileContent io fileUrl = Inr response \<and> csv_parse io (body response) = Inr records \<and>
    records \<noteq> [] \<longrightarrow>
      (\<exists>chunks. extractTextFromFile io fileUrl ''text/csv'' = Inr chunks \<and> chunks \<noteq> [])) \<and>
   (fetchFileContent io fileUrl = Inr response \<and> XLSX_read io (body response) = Inr workbook \<and>
    (\<exists>sheet \<in> set workbook. \<exists>row \<in> set (snd sheet). row \<noteq> []) \<longrightarrow>
      (\<exists>chunks. extractTextFromFile io fileUrl
          ''application/vnd.openxmlformats-officedocument.spreadsheetml.sheet'' = Inr chunks \<and>
         chunks \<noteq> [])) \<and>
   (fetchFileContent io fileUrl = Inr response \<and> notebook_cells io (body response) = Inr cells \<and>
    (\<exists>cell \<in> set cells. has_source cell) \<longrightarrow>
      (\<exists>chunks. extractTextFromFile io fileUrl ''application/x-ipynb+json'' = Inr chunks \<and>
         chunks \<noteq> []))"
proof (intro conjI impI)
  show "\<exists>chunks. extractTextFromFile io fileUrl ''application/pdf'' = Inr chunks \<and> chunks \<noteq> []"
    using extractTextFromPDF_total[of io fileUrl "file_name fileUrl"]
    by (auto simp: extractTextFromFile_cases extract_by_type_def)
next
  assume "fetchFileContent io fileUrl = Inl e \<or>
    (\<exists>response. fetchFileContent io fileUrl = Inr response \<and>
       mammoth_extractRawText io (body response) = Inl e)"
  from extractTextFromPDF_failed[OF this, of "file_name fileUrl"]
  show "\<exists>c. extractTextFromFile io fileUrl ''application/pdf'' = Inr [c] \<and>
           map_of (metadata c) ''processingStatus'' = Some (MStr ''failed'') \<and>
           map_of (metadata c) ''error'' = Some (MStr (message_or_unknown e))"
    using failed_pdf_chunk_status
    by (simp add: extractTextFromFile_cases extract_by_type_def)
next
  assume "fileType \<in> {''application/vnd.openxmlformats-officedocument.presentationml.presentation'',
                 ''image/jpeg'', ''image/png''}"
  then show "\<exists>c. extractTextFromFile io fileUrl fileType = Inr [c]"
    by (auto simp: extractTextFromFile_cases extract_by_type_def extractTextFromPPTX_def
        extractTextFromImage_def)
next
  assume "fileType \<notin> {''application/pdf'',
                 ''application/vnd.openxmlformats-officedocument.presentationml.presentation'',
                 ''image/jpeg'', ''image/png''} \<and>
    fetchFileContent io fileUrl = Inl e"
  then show "extractTextFromFile io fileUrl fileType =
        Inl (Error_instance (new_Error (''Failed to extract text from '' @ file_name fileUrl @ '': '' @
                                        message_or_unknown e)))"
    using fetch_first[of io fileUrl e fileType "file_name fileUrl"]
    by (simp add: extractTextFromFile_cases)
next
  assume "fetchFileContent io fileUrl = Inr response \<and> mammoth_extractRawText io (body response) = Inl e"
  then show "extractTextFromFile io fileUrl
          ''application/vnd.openxmlformats-officedocument.wordprocessingml.document'' =
        Inl (Error_instance (new_Error (''Failed to extract text from '' @ file_name fileUrl @ '': '' @
                                        message_or_unknown e)))"
    by (simp add: extractTextFromFile_cases extract_by_type_def extractTextFromDOCX_cases)
next
  assume a: "fetchFileContent io fileUrl = Inr response \<and> mammoth_extractRawText io (body response) = Inr t \<and>
    \<not> blank t"
  then have "paragraph_chunks ''docx'' ''Paragraph'' (file_name fileUrl)
               (filter (\<lambda>p. js_trim p \<noteq> []) (split_double_newline [] t)) \<noteq> []"
    using not_blank_pieces(1)[of t] by (simp add: paragraph_chunks_def)
  with a show "\<exists>chunks. extractTextFromFile io fileUrl
          ''application/vnd.openxmlformats-officedocument.wordprocessingml.document'' = Inr chunks \<and>
         chunks \<noteq> []"
    by (simp add: extractTextFromFile_cases extract_by_type_def extractTextFromDOCX_cases)
next
  assume a: "fetchFileContent io fileUrl = Inr response \<and> \<not> blank (body response)"
  then have "paragraph_chunks ''text'' ''Paragraph'' (file_name fileUrl)
               (filter (\<lambda>p. js_trim p \<noteq> []) (split_double_newline [] (body response))) \<noteq> []"
    using not_blank_pieces(1)[of "body response"] by (simp add: paragraph_chunks_def)
  with a show "\<exists>chunks. extractTextFromFile io fileUrl ''text/plain'' = Inr chunks \<and> chunks \<noteq> []"
    by (simp add: extractTextFromFile_cases extract_by_type_def extractTextFromPlainText_def Let_def)
next
  assume "fetchFileContent io fileUrl = Inr response \<and> csv_parse io (body response) = Inl e"
  then show "extractTextFromFile io fileUrl ''text/csv'' =
        Inl (Error_instance (new_Error (''Failed to extract text from '' @ file_name fileUrl @ '': '' @
                                        message_or_unknown e)))"
    by (simp add: extractTextFromFile_cases extract_by_type_def extractTextFromCSV_def)
next
  assume "fetchFileContent io fileUrl = Inr response \<and> XLSX_read io (body response) = Inl e"
  then show "extractTextFromFile io fileUrl
          ''application/vnd.openxmlformats-officedocument.spreadsheetml.sheet'' =
        Inl (Error_instance (new_Error (''Failed to extract text from '' @ file_name fileUrl @ '': '' @
                                        message_or_unknown e)))"
    by (simp add: extractTextFromFile_cases extract_by_type_def extractTextFromXLSX_def)
next
  assume "fetchFileContent io fileUrl = Inr response \<and> notebook_cells io (body response) = Inl e"
  then show "extractTextFromFile io fileUrl ''application/x-ipynb+json'' =
        Inl (Error_instance (new_Error (''Failed to extract text from '' @ file_name fileUrl @ '': '' @
                                        message_or_unknown e)))"
    by (simp add: extractTextFromFile_cases extract_by_type_def extractTextFromNotebook_def)
next
  assume "fetchFileContent io fileUrl = Inr response \<and> \<not> blank (html_text_content (body response))"
  then show "\<exists>chunks. extractTextFromFile io fileUrl ''text/html'' = Inr chunks \<and> chunks \<noteq> []"
    using extractTextFromHTML_nonempty[of io fileUrl response "file_name fileUrl"]
    by (auto simp: extractTextFromFile_cases extract_by_type_def)
next
  assume "fetchFileContent io fileUrl = Inr response \<and> csv_parse io (body response) = Inr records \<and>
    records \<noteq> []"
  then show "\<exists>chunks. extractTextFromFile io fileUrl ''text/csv'' = Inr chunks \<and> chunks \<noteq> []"
    using extractTextFromCSV_nonempty[of io fileUrl response records "file_name fileUrl"]
    by (auto simp: extractTextFromFile_cases extract_by_type_def)
next
  assume "fetchFileContent io fileUrl = Inr response \<and> XLSX_read io (body response) = Inr workbook \<and>
    (\<exists>sheet \<in> set workbook. \<exists>row \<in> set (snd sheet). row \<noteq> [])"
  then show "\<exists>chunks. extractTextFromFile io fileUrl
          ''application/vnd.openxmlformats-officedocument.spreadsheetml.sheet'' = Inr chunks \<and>
         chunks \<noteq> []"
    using extractTextFromXLSX_nonempty[of io fileUrl response workbook "file_name fileUrl"]
    by (auto simp: extractTextFromFile_cases extract_by_type_def)
next
  assume "fetchFileContent io fileUrl = Inr response \<and> notebook_cells io (body response) = Inr cells \<and>
    (\<exists>cell \<in> set cells. has_source cell)"
  then show "\<exists>chunks. extractTextFromFile io fileUrl ''application/x-ipynb+json'' = Inr chunks \<and>
         chunks \<noteq> []"
    using extractTextFromNotebook_nonempty[of io fileUrl response cells "file_name fileUrl"]
    by (auto simp: extractTextFromFile_cases extract_by_type_def)
qed

text \<open>
  Example file stores. Each serves every URL with the same response; \<open>example_io\<close> is
  given that response and the outcome of mammoth, and the three others serve some bytes
  and are given the outcome of csv-parse, of XLSX and of the reading of a notebook. The
  parsers that the example does not concern throw.
\<close>

definition served :: "string \<Rightarrow> response" where
  "served b = \<lparr>ok = True, statusText = ''OK'', body = b\<rparr>"

definition not_found :: response where
  "not_found = \<lparr>ok = False, statusText = ''Not Found'', body = []\<rparr>"

definition example_io :: "response \<Rightarrow> thrown + string \<Rightarrow> extraction_io" where
  "example_io r outcome =
     \<lparr>fetch = (\<lambda>url. Inr r),
      mammoth_extractRawText = (\<lambda>b. outcome),
      csv_parse = (\<lambda>t. Inl Other_value),
      XLSX_read = (\<lambda>b. Inl Other_value),
      notebook_cells = (\<lambda>t. Inl Other_value)\<rparr>"

definition example_csv :: "thrown + (string \<times> string) list list \<Rightarrow> extraction_io" where
  "example_csv outcome =
     \<lparr>fetch = (\<lambda>url. Inr (served ''bytes'')),
      mammoth_extractRawText = (\<lambda>b. Inl Other_value),
      csv_parse = (\<lambda>t. outcome),
      XLSX_read = (\<lambda>b. Inl Other_value),
      notebook_cells = (\<lambda>t. Inl Other_value)\<rparr>"

definition example_xlsx :: "thrown + (string \<times> string list list) list \<Rightarrow> extraction_io" where
  "example_xlsx outcome =
     \<lparr>fetch = (\<lambda>url. Inr (served ''bytes'')),
      mammoth_extractRawText = (\<lambda>b. Inl Other_value),
      csv_parse = (\<lambda>t. Inl Other_value),
      XLSX_read = (\<lambda>b. outcome),
      notebook_cells = (\<lambda>t. Inl Other_value)\<rparr>"

definition example_notebook :: "thrown + notebook_cell list \<Rightarrow> extraction_io" where
  "example_notebook outcome =
     \<lparr>fetch = (\<lambda>url. Inr (served ''bytes'')),
      mammoth_extractRawText = (\<lambda>b. Inl Other_value),
      csv_parse = (\<lambda>t. Inl Other_value),
      XLSX_read = (\<lambda>b. Inl Other_value),
      notebook_cells = (\<lambda>t. outcome)\<rparr>"

definition not_a_zip :: js_error where
  "not_a_zip = new_Error ''Can't find end of central directory : is this a zip file ?''"

lemma example_io_fetch:
  "fetchFileContent (example_io (served b) outcome) url = Inr (served b)"
  "fetchFileContent (example_io not_found outcome) url =
     Inl (Error_instance (new_Error ''Failed to fetch file: Not Found''))"
  "fetchFileContent (example_csv records) url = Inr (served ''bytes'')"
  "fetchFileContent (example_xlsx workbook) url = Inr (served ''bytes'')"
  "fetchFileContent (example_notebook cells) url = Inr (served ''bytes'')"
  by (simp_all add: fetchFileContent_def example_io_def example_csv_def example_xlsx_def
      example_notebook_def served_def not_found_def)

lemma example_io_parsers:
  "mammoth_extractRawText (example_io r outcome) b = outcome"
  "csv_parse (example_csv records) b = records"
  "XLSX_read (example_xlsx workbook) b = workbook"
  "notebook_cells (example_notebook cells) b = cells"
  by (simp_all add: example_io_def example_csv_def example_xlsx_def example_notebook_def)

lemma served_body: "body (served b) = b"
  by (simp add: served_def)

lemma file_name_report: "file_name ''https://files/u1/report.docx'' = ''report.docx''"
  by (simp add: file_name_def)

lemma html_text_content_examples:
  "html_text_content ''<p></p>'' = []"
  "html_text_content ''<p>Hi</p>'' = ''Hi''"
  by code_simp+

text \<open>
  A DOCX file that mammoth cannot open: the dispatcher raises, there is no diagnostic
  chunk. Inputs that are well formed and have no content give no chunk at all: a DOCX
  file whose text is blank, an HTML page with an empty paragraph, a blank text file, a
  CSV file without a record, a workbook whose sheet has no row, a notebook whose cell has
  no source.
\<close>

theorem extraction_raises_counterexample:
  "extractTextFromFile (example_io (served ''bytes'') (Inl (Error_instance not_a_zip)))
      ''https://files/u1/report.docx''
      ''application/vnd.openxmlformats-officedocument.wordprocessingml.document'' =
     Inl (Error_instance (new_Error (''Failed to extract text from report.docx: '' @
                     ''Can't find end of central directory : is this a zip file ?''))) \<and>
   extractTextFromFile (example_io (served ''bytes'') (Inr '' \<newline>'')) ''https://files/u1/report.docx''
      ''application/vnd.openxmlformats-officedocument.wordprocessingml.document'' = Inr [] \<and>
   extractTextFromFile (example_io (served ''<p></p>'') (Inl Other_value)) ''https://files/u1/report.docx''
      ''text/html'' = Inr [] \<and>
   extractTextFromFile (example_io (served '' \<newline>'') (Inl Other_value)) ''https://files/u1/report.docx''
      ''text/plain'' = Inr [] \<and>
   extractTextFromFile (example_csv (Inr [])) ''https://files/u1/report.docx'' ''text/csv'' = Inr [] \<and>
   extractTextFromFile (example_xlsx (Inr [(''Sheet1'', [])])) ''https://files/u1/report.docx''
      ''application/vnd.openxmlformats-officedocument.spreadsheetml.sheet'' = Inr [] \<and>
   extractTextFromFile (example_notebook (Inr [\<lparr>source = NoSource, cell_type = ''code''\<rparr>]))
      ''https://files/u1/report.docx'' ''application/x-ipynb+json'' = Inr []"
  by (simp add: extractTextFromFile_cases extract_by_type_def extractTextFromDOCX_cases
      extractTextFromHTML_def extractTextFromPlainText_def extractTextFromCSV_def
      extractTextFromXLSX_def extractTextFromNotebook_def sheet_chunks_def has_source_def
      example_io_fetch example_io_parsers served_body html_text_content_examples
      file_name_report not_a_zip_def new_Error_def
      paragraph_chunks_def js_trim_def js_whitespace_def)

text \<open>
  The outcomes on the example stores. Under the PDF type a value thrown by mammoth that
  is not an \<open>Error\<close> gives the one failed chunk, with \<open>Unknown error\<close>; under the DOCX type
  the dispatcher raises, with the message of the error or with \<open>Unknown error\<close>. A DOCX
  text of two paragraphs, a text file, an HTML page with a paragraph, a CSV file with a
  record, a workbook with two rows and a notebook with a cell give chunks. A file that
  is not found raises for a CSV file and gives the placeholder chunk for an image. The
  parsers of CSV, XLSX and notebook files that throw make the dispatcher raise.
\<close>

theorem extraction_outcomes_witness:
  "(\<exists>c. extractTextFromFile (example_io (served ''bytes'') (Inl Other_value))
        ''https://files/u1/report.docx'' ''application/pdf'' = Inr [c] \<and>
      map_of (metadata c) ''processingStatus'' = Some (MStr ''failed'') \<and>
      map_of (metadata c) ''error'' = Some (MStr ''Unknown error'')) \<and>
   extractTextFromFile (example_io (served ''bytes'') (Inl (Error_instance not_a_zip)))
       ''https://files/u1/report.docx''
       ''application/vnd.openxmlformats-officedocument.wordprocessingml.document'' =
     Inl (Error_instance (new_Error ''Failed to extract text from report.docx: Can't find end of central directory : is this a zip file ?'')) \<and>
   extractTextFromFile (example_io (served ''bytes'') (Inl Other_value))
       ''https://files/u1/report.docx''
       ''application/vnd.openxmlformats-officedocument.wordprocessingml.document'' =
     Inl (Error_instance (new_Error ''Failed to extract text from report.docx: Unknown error'')) \<and>
   (\<exists>chunks. extractTextFromFile (example_io (served ''bytes'') (Inr ''one\<newline>\<newline>two''))
        ''https://files/u1/report.docx''
        ''application/vnd.openxmlformats-officedocument.wordprocessingml.document'' = Inr chunks \<and> chunks \<noteq> []) \<and>
   (\<exists>chunks. extractTextFromFile (example_io (served ''hello'') (Inl Other_value))
        ''https://files/u1/report.docx''
        ''text/plain'' = Inr chunks \<and> chunks \<noteq> []) \<and>
   (\<exists>chunks. extractTextFromFile (example_io (served ''<p>Hi</p>'') (Inl Other_value))
        ''https://files/u1/report.docx''
        ''text/html'' = Inr chunks \<and> chunks \<noteq> []) \<and>
   (\<exists>chunks. extractTextFromFile (example_csv (Inr [[(''name'', ''Ada'')]]))
        ''https://files/u1/report.docx''
        ''text/csv'' = Inr chunks \<and> chunks \<noteq> []) \<and>
   (\<exists>chunks. extractTextFromFile (example_xlsx (Inr [(''Sheet1'', [[''name''], [''Ada'']])]))
        ''https://files/u1/report.docx''
        ''application/vnd.openxmlformats-officedocument.spreadsheetml.sheet'' = Inr chunks \<and> chunks \<noteq> []) \<and>
   (\<exists>chunks. extractTextFromFile (example_notebook (Inr [\<lparr>source = SourceLines [''print(1)''], cell_type = ''code''\<rparr>]))
        ''https://files/u1/report.docx''
        ''application/x-ipynb+json'' = Inr chunks \<and> chunks \<noteq> []) \<and>
   extractTextFromFile (example_io not_found (Inl Other_value))
       ''https://files/u1/report.docx''
       ''text/csv'' =
     Inl (Error_instance (new_Error ''Failed to extract text from report.docx: Failed to fetch file: Not Found'')) \<and>
   (\<exists>c. extractTextFromFile (example_io not_found (Inl Other_value))
        ''https://files/u1/report.docx'' ''image/png'' = Inr [c]) \<and>
   extractTextFromFile (example_csv (Inl Other_value))
       ''https://files/u1/report.docx''
       ''text/csv'' =
     Inl (Error_instance (new_Error ''Failed to extract text from report.docx: Unknown error'')) \<and>
   extractTextFromFile (example_xlsx (Inl (Error_instance not_a_zip)))
       ''https://files/u1/report.docx''
       ''application/vnd.openxmlformats-officedocument.spreadsheetml.sheet'' =
     Inl (Error_instance (new_Error ''Failed to extract text from report.docx: Can't find end of central directory : is this a zip file ?'')) \<and>
   extractTextFromFile (example_notebook (Inl (Error_instance (new_Error ''Unexpected end of JSON input''))))
       ''https://files/u1/report.docx''
       ''application/x-ipynb+json'' =
     Inl (Error_instance (new_Error ''Failed to extract text from report.docx: Unexpected end of JSON input''))"
proof -
  note io = example_io_fetch example_io_parsers served_body file_name_report
    html_text_content_examples not_a_zip_def new_Error_def blank_iff js_whitespace_def
    has_source_def
  from extraction_outcomes[where io = "example_io (served ''bytes'') (Inl Other_value)" and
        fileUrl = "''https://files/u1/report.docx''" and
        e = "Other_value" and
        fileType = "''text/plain''" and
        response = "served ''bytes''" and
        t = "[]" and
        records = "[]" and
        workbook = "[]" and
        cells = "[]"]
  have pdf: "(\<exists>c. extractTextFromFile (example_io (served ''bytes'') (Inl Other_value))
           ''https://files/u1/report.docx'' ''application/pdf'' = Inr [c] \<and>
         map_of (metadata c) ''processingStatus'' = Some (MStr ''failed'') \<and>
         map_of (metadata c) ''error'' = Some (MStr ''Unknown error''))"
    by (simp add: io)
  from extraction_outcomes[where io = "example_io (served ''bytes'') (Inl (Error_instance not_a_zip))" and
        fileUrl = "''https://files/u1/report.docx''" and
        e = "Error_instance not_a_zip" and
        fileType = "''text/plain''" and
        response = "served ''bytes''" and
        t = "[]" and
        records = "[]" and
        workbook = "[]" and
        cells = "[]"]
  have docx_error: "extractTextFromFile (example_io (served ''bytes'') (Inl (Error_instance not_a_zip)))
          ''https://files/u1/report.docx''
          ''application/vnd.openxmlformats-officedocument.wordprocessingml.document'' =
        Inl (Error_instance (new_Error ''Failed to extract text from report.docx: Can't find end of central directory : is this a zip file ?''))"
    by (simp add: io)
  from extraction_outcomes[where io = "example_io (served ''bytes'') (Inl Other_value)" and
        fileUrl = "''https://files/u1/report.docx''" and
        e = "Other_value" and
        fileType = "''text/plain''" and
        response = "served ''bytes''" and
        t = "[]" and
        records = "[]" and
        workbook = "[]" and
        cells = "[]"]
  have docx_other: "extractTextFromFile (example_io (served ''bytes'') (Inl Other_value))
          ''https://files/u1/report.docx''
          ''application/vnd.openxmlformats-officedocument.wordprocessingml.document'' =
        Inl (Error_instance (new_Error ''Failed to extract text from report.docx: Unknown error''))"
    by (simp add: io)
  from extraction_outcomes[where io = "example_io (served ''bytes'') (Inr ''one\<newline>\<newline>two'')" and
        fileUrl = "''https://files/u1/report.docx''" and
        e = "Other_value" and
        fileType = "''text/plain''" and
        response = "served ''bytes''" and
        t = "''one\<newline>\<newline>two''" and
        records = "[]" and
        workbook = "[]" and
        cells = "[]"]
  have docx_text: "(\<exists>chunks. extractTextFromFile (example_io (served ''bytes'') (Inr ''one\<newline>\<newline>two''))
           ''https://files/u1/report.docx''
           ''application/vnd.openxmlformats-officedocument.wordprocessingml.document'' = Inr chunks \<and> chunks \<noteq> [])"
    by (simp add: io)
  from extraction_outcomes[where io = "example_io (served ''hello'') (Inl Other_value)" and
        fileUrl = "''https://files/u1/report.docx''" and
        e = "Other_value" and
        fileType = "''text/plain''" and
        response = "served ''hello''" and
        t = "[]" and
        records = "[]" and
        workbook = "[]" and
        cells = "[]"]
  have plain_text: "(\<exists>chunks. extractTextFromFile (example_io (served ''hello'') (Inl Other_value))
           ''https://files/u1/report.docx''
           ''text/plain'' = Inr chunks \<and> chunks \<noteq> [])"
    by (simp add: io)
  from extraction_outcomes[where io = "example_io (served ''<p>Hi</p>'') (Inl Other_value)" and
        fileUrl = "''https://files/u1/report.docx''" and
        e = "Other_value" and
        fileType = "''text/plain''" and
        response = "served ''<p>Hi</p>''" and
        t = "[]" and
        records = "[]" and
        workbook = "[]" and
        cells = "[]"]
  have html: "(\<exists>chunks. extractTextFromFile (example_io (served ''<p>Hi</p>'') (Inl Other_value))
           ''https://files/u1/report.docx''
           ''text/html'' = Inr chunks \<and> chunks \<noteq> [])"
    by (simp add: io)
  from extraction_outcomes[where io = "example_csv (Inr [[(''name'', ''Ada'')]])" and
        fileUrl = "''https://files/u1/report.docx''" and
        e = "Other_value" and
        fileType = "''text/plain''" and
        response = "served ''bytes''" and
        t = "[]" and
        records = "[[(''name'', ''Ada'')]]" and
        workbook = "[]" and
        cells = "[]"]
  have csv: "(\<exists>chunks. extractTextFromFile (example_csv (Inr [[(''name'', ''Ada'')]]))
           ''https://files/u1/report.docx''
           ''text/csv'' = Inr chunks \<and> chunks \<noteq> [])"
    by (simp add: io)
  from extraction_outcomes[where io = "example_xlsx (Inr [(''Sheet1'', [[''name''], [''Ada'']])])" and
        fileUrl = "''https://files/u1/report.docx''" and
        e = "Other_value" and
        fileType = "''text/plain''" and
        response = "served ''bytes''" and
        t = "[]" and
        records = "[]" and
        workbook = "[(''Sheet1'', [[''name''], [''Ada'']])]" and
        cells = "[]"]
  have xlsx: "(\<exists>chunks. extractTextFromFile (example_xlsx (Inr [(''Sheet1'', [[''name''], [''Ada'']])]))
           ''https://files/u1/report.docx''
           ''application/vnd.openxmlformats-officedocument.spreadsheetml.sheet'' = Inr chunks \<and> chunks \<noteq> [])"
    by (simp add: io)
  from extraction_outcomes[where io = "example_notebook (Inr [\<lparr>source = SourceLines [''print(1)''], cell_type = ''code''\<rparr>])" and
        fileUrl = "''https://files/u1/report.docx''" and
        e = "Other_value" and
        fileType = "''text/plain''" and
        response = "served ''bytes''" and
        t = "[]" and
        records = "[]" and
        workbook = "[]" and
        cells = "[\<lparr>source = SourceLines [''print(1)''], cell_type = ''code''\<rparr>]"]
  have notebook: "(\<exists>chunks. extractTextFromFile (example_notebook (Inr [\<lparr>source = SourceLines [''print(1)''], cell_type = ''code''\<rparr>]))
           ''https://files/u1/report.docx''
           ''application/x-ipynb+json'' = Inr chunks \<and> chunks \<noteq> [])"
    by (simp add: io)
  from extraction_outcomes[where io = "example_io not_found (Inl Other_value)" and
        fileUrl = "''https://files/u1/report.docx''" and
        e = "Error_instance (new_Error ''Failed to fetch file: Not Found'')" and
        fileType = "''text/csv''" and
        response = "served ''bytes''" and
        t = "[]" and
        records = "[]" and
        workbook = "[]" and
        cells = "[]"]
  have not_found: "extractTextFromFile (example_io not_found (Inl Other_value))
          ''https://files/u1/report.docx''
          ''text/csv'' =
        Inl (Error_instance (new_Error ''Failed to extract text from report.docx: Failed to fetch file: Not Found''))"
    by (simp add: io)
  from extraction_outcomes[where io = "example_io not_found (Inl Other_value)" and
        fileUrl = "''https://files/u1/report.docx''" and
        e = "Other_value" and
        fileType = "''image/png''" and
        response = "served ''bytes''" and
        t = "[]" and
        records = "[]" and
        workbook = "[]" and
        cells = "[]"]
  have image: "(\<exists>c. extractTextFromFile (example_io not_found (Inl Other_value))
           ''https://files/u1/report.docx'' ''image/png'' = Inr [c])"
    by (simp add: io)
  from extraction_outcomes[where io = "example_csv (Inl Other_value)" and
        fileUrl = "''https://files/u1/report.docx''" and
        e = "Other_value" and
        fileType = "''text/plain''" and
        response = "served ''bytes''" and
        t = "[]" and
        records = "[]" and
        workbook = "[]" and
        cells = "[]"]
  have csv_error: "extractTextFromFile (example_csv (Inl Other_value))
          ''https://files/u1/report.docx''
          ''text/csv'' =
        Inl (Error_instance (new_Error ''Failed to extract text from report.docx: Unknown error''))"
    by (simp add: io)
  from extraction_outcomes[where io = "example_xlsx (Inl (Error_instance not_a_zip))" and
        fileUrl = "''https://files/u1/report.docx''" and
        e = "Error_instance not_a_zip" and
        fileType = "''text/plain''" and
        response = "served ''bytes''" and
        t = "[]" and
        records = "[]" and
        workbook = "[]" and
        cells = "[]"]
  have xlsx_error: "extractTextFromFile (example_xlsx (Inl (Error_instance not_a_zip)))
          ''https://files/u1/report.docx''
          ''application/vnd.openxmlformats-officedocument.spreadsheetml.sheet'' =
        Inl (Error_instance (new_Error ''Failed to extract text from report.docx: Can't find end of central directory : is this a zip file ?''))"
    by (simp add: io)
  from extraction_outcomes[where io = "example_notebook (Inl (Error_instance (new_Error ''Unexpected end of JSON input'')))" and
        fileUrl = "''https://files/u1/report.docx''" and
        e = "Error_instance (new_Error ''Unexpected end of JSON input'')" and
        fileType = "''text/plain''" and
        response = "served ''bytes''" and
        t = "[]" and
        records = "[]" and
        workbook = "[]" and
        cells = "[]"]
  have notebook_error: "extractTextFromFile (example_notebook (Inl (Error_instance (new_Error ''Unexpected end of JSON input''))))
          ''https://files/u1/report.docx''
          ''application/x-ipynb+json'' =
        Inl (Error_instance (new_Error ''Failed to extract text from report.docx: Unexpected end of JSON input''))"
    by (simp add: io)
  from pdf docx_error docx_other docx_text plain_text html csv xlsx notebook not_found image csv_error xlsx_error notebook_error
  show ?thesis by (intro conjI)
qed

end
